theory Spec2Isabelle
  imports Complex_Main "HOL-Library.Multiset" "HOL-Library.Char_ord" "HOL-Library.List_Lexorder"
begin

section \<open>Market health scoring engine: numbers and data model\<close>

text \<open>
  The TypeScript services compute over the JavaScript type \<open>number\<close>, the IEEE-754
  binary64 doubles. A \<open>number\<close> is modelled as a \<^typ>\<open>real\<close>; \<open>NaN\<close> and the infinities
  have no counterpart here.

  The mid price, the spread and the spread percentage of \<open>LiquidityService\<close> end in
  threshold tests (\<open>spreadPercent < 0.5\<close>), where the last bit of a double decides the
  branch. They are computed as the code computes them: \<open>parseFloat\<close> returns the double
  nearest to the decimal it reads, and each addition, subtraction, multiplication and
  division returns the double nearest to its exact result (\<open>toDouble\<close> below). The other
  arithmetic of the services (the sums of quantities, the logarithmic and weighted scores,
  the statistics of prices, the arithmetic on clock readings) is the exact operation on
  reals.

  Where JavaScript would divide by zero the source guards the division (\<open>midPrice > 0\<close>,
  \<open>meanPrice > 0\<close>), with one exception, \<open>calculatePriceChanges\<close>, where HOL's
  \<open>x / 0 = 0\<close> stands in for JavaScript's infinity.
  \<open>Date.now()\<close> is an argument of each function that reads the clock.
\<close>

subsection \<open>Rounding to a double\<close>

text \<open>
  Round to nearest, ties to even: the rounding of \<open>parseFloat\<close> and of the four arithmetic
  operations. A double in the binade \<open>[2^e, 2^(e+1))\<close> is a multiple of \<open>2^(e-52)\<close>; below
  \<open>2^(-1022)\<close> the doubles are the multiples of \<open>2^(-1074)\<close>. A result of magnitude
  \<open>2^1024\<close> or more is an infinity in JavaScript and is left as it is here.
\<close>

definition roundTiesToEven :: "real \<Rightarrow> int" where
  "roundTiesToEven y =
     (let f = \<lfloor>y\<rfloor>
      in if y - of_int f < 1 / 2 then f
         else if y - of_int f > 1 / 2 then f + 1
         else if even f then f else f + 1)"

definition binade :: "real \<Rightarrow> int" where
  "binade x = (if \<bar>x\<bar> < 2 powi (- 1022) then - 1022 else \<lfloor>log 2 \<bar>x\<bar>\<rfloor>)"

definition toDouble :: "real \<Rightarrow> real" where
  "toDouble x =
     (let u = 2 powi (binade x - 52)
      in of_int (roundTiesToEven (x / u)) * u)"

subsection \<open>The built-ins of \<open>Math\<close>\<close>

text \<open>
  \<open>Math.log10\<close> is applied to a depth, a volume or a count plus 1, and \<open>Math.sqrt\<close> to a
  mean of squares; on sums of non-negative quantities these arguments are at least 1 and at
  least 0, where \<open>log 10\<close> and \<open>sqrt\<close> are the functions JavaScript approximates.
\<close>

definition Math_round :: "real \<Rightarrow> real" where
  \<comment> \<open>\<open>Math.round\<close>: the nearest integer, a tie going up.\<close>
  "Math_round x = real_of_int \<lfloor>x + 1 / 2\<rfloor>"

definition Math_log10 :: "real \<Rightarrow> real" where
  "Math_log10 x = log 10 x"

definition Math_sqrt :: "real \<Rightarrow> real" where
  "Math_sqrt x = sqrt x"

definition Math_pow2 :: "real \<Rightarrow> real" where
  \<comment> \<open>\<open>Math.pow(x, 2)\<close>, the only use of \<open>Math.pow\<close> in the services.\<close>
  "Math_pow2 x = x ^ 2"

subsection \<open>\<open>parseFloat\<close> on decimal strings\<close>

text \<open>
  Prices and quantities arrive as decimal strings. \<open>parseFloat\<close> skips leading white space,
  reads the longest prefix of the form sign, digits, fraction, exponent, and returns the
  double nearest to the decimal read. A string with no such prefix is \<open>NaN\<close> in
  JavaScript; the model has no \<open>NaN\<close> and gives 0 there, and the word \<open>Infinity\<close> is
  not read.
\<close>

definition isDigit :: "char \<Rightarrow> bool" where
  "isDigit c = (c \<in> set ''0123456789'')"

definition digitVal :: "char \<Rightarrow> nat" where
  \<comment> \<open>The position of a digit in \<open>0123456789\<close>.\<close>
  "digitVal c = length (takeWhile (\<lambda>d. d \<noteq> c) ''0123456789'')"

definition digitsVal :: "string \<Rightarrow> nat" where
  "digitsVal ds = foldl (\<lambda>acc c. 10 * acc + digitVal c) 0 ds"

definition isWhiteSpace :: "char \<Rightarrow> bool" where
  "isWhiteSpace c =
     (c = CHR '' '' \<or> c = CHR 0x09 \<or> c = CHR 0x0A \<or> c = CHR 0x0B \<or> c = CHR 0x0C \<or> c = CHR 0x0D)"

definition splitSign :: "string \<Rightarrow> int \<times> string" where
  "splitSign s =
     (case s of
        [] \<Rightarrow> (1, s)
      | c # r \<Rightarrow> if c = CHR ''-'' then (- 1, r) else if c = CHR ''+'' then (1, r) else (1, s))"

definition exponentPart :: "string \<Rightarrow> int" where
  "exponentPart s =
     (case s of
        [] \<Rightarrow> 0
      | c # r \<Rightarrow>
          if c = CHR ''e'' \<or> c = CHR ''E''
          then (let (sg, r') = splitSign r; ds = takeWhile isDigit r'
                in if ds = [] then 0 else sg * int (digitsVal ds))
          else 0)"

definition parseFloat :: "string \<Rightarrow> real" where
  "parseFloat s =
     (let (sg, s1) = splitSign (dropWhile isWhiteSpace s);
          ip = takeWhile isDigit s1;
          r1 = dropWhile isDigit s1;
          (fp, r2) = (case r1 of
                        [] \<Rightarrow> ([], r1)
                      | c # r \<Rightarrow> if c = CHR ''.''
                                then (takeWhile isDigit r, dropWhile isDigit r)
                                else ([], r1))
      in if ip = [] \<and> fp = [] then 0
         else toDouble
                (of_int sg * (real (digitsVal ip) + real (digitsVal fp) / 10 ^ length fp)
                   * 10 powi exponentPart r2))"

subsection \<open>The types of \<open>types/index.ts\<close>\<close>

record PriceLevel =
  price :: string
  quantity :: string
  timestamp :: real

record OrderbookData =
  buys :: "PriceLevel list"
  sells :: "PriceLevel list"
  sequence :: real

record PositionDelta =
  tradeDirection :: string
  executionPrice :: string
  executionQuantity :: string
  executionMargin :: string

record Trade =
  orderHash :: string
  subaccountId :: string
  marketId :: string
  tradeExecutionType :: string
  positionDelta :: PositionDelta
  payout :: string
  fee :: string
  executedAt :: real
  feeRecipient :: string
  tradeId :: string
  executionSide :: string

record LiquidityMetrics =
  score :: real
  bidDepth :: real
  askDepth :: real
  totalDepth :: real
  depth1Percent :: real
  depth5Percent :: real
  spread :: real
  spreadPercent :: real
  midPrice :: real
  timestamp :: real

section \<open>LiquidityService\<close>

definition calculateMidPrice :: "OrderbookData \<Rightarrow> real" where
  "calculateMidPrice orderbook =
     (let bestBid = (case buys orderbook of [] \<Rightarrow> 0 | b # _ \<Rightarrow> parseFloat (price b));
          bestAsk = (case sells orderbook of [] \<Rightarrow> 0 | a # _ \<Rightarrow> parseFloat (price a))
      in if bestBid = 0 \<or> bestAsk = 0 then 0
         else toDouble (toDouble (bestBid + bestAsk) / 2))"

definition calculateSpread :: "OrderbookData \<Rightarrow> real" where
  "calculateSpread orderbook =
     (let bestBid = (case buys orderbook of [] \<Rightarrow> 0 | b # _ \<Rightarrow> parseFloat (price b));
          bestAsk = (case sells orderbook of [] \<Rightarrow> 0 | a # _ \<Rightarrow> parseFloat (price a))
      in \<bar>toDouble (bestAsk - bestBid)\<bar>)"

definition calculateDepth :: "PriceLevel list \<Rightarrow> real" where
  "calculateDepth levels = foldl (\<lambda>sum level. sum + parseFloat (quantity level)) 0 levels"

definition calculateDepthAtPercent :: "OrderbookData \<Rightarrow> real \<Rightarrow> real \<Rightarrow> real" where
  "calculateDepthAtPercent orderbook mid percent =
     (let upperBound = mid * (1 + percent);
          lowerBound = mid * (1 - percent);
          bidD = foldl (\<lambda>sum level. sum + parseFloat (quantity level)) 0
                   (filter (\<lambda>level. parseFloat (price level) \<ge> lowerBound) (buys orderbook));
          askD = foldl (\<lambda>sum level. sum + parseFloat (quantity level)) 0
                   (filter (\<lambda>level. parseFloat (price level) \<le> upperBound) (sells orderbook))
      in bidD + askD)"

text \<open>
  The source passes one object \<open>{totalDepth, spreadPercent, depth1Percent, depth5Percent}\<close>;
  here its four fields are four arguments, in that order.
\<close>

definition calculateLiquidityScore :: "real \<Rightarrow> real \<Rightarrow> real \<Rightarrow> real \<Rightarrow> real" where
  "calculateLiquidityScore totalD spreadPct depth1 depth5 =
     (let spreadScore = max 0 (100 - spreadPct * 20);
          depthScore = min 100 (Math_log10 (totalD + 1) * 20);
          depth1Score = min 100 (Math_log10 (depth1 + 1) * 25);
          depth5Score = min 100 (Math_log10 (depth5 + 1) * 20);
          totalScore = spreadScore * 0.4 + depthScore * 0.3 + depth1Score * 0.15
                         + depth5Score * 0.15
      in Math_round (max 0 (min 100 totalScore)))"

definition calculateLiquidity :: "real \<Rightarrow> OrderbookData \<Rightarrow> LiquidityMetrics" where
  "calculateLiquidity now orderbook =
     (let mid = calculateMidPrice orderbook;
          spr = calculateSpread orderbook;
          sprPct = (if mid > 0 then toDouble (toDouble (spr / mid) * 100) else 0);
          bidD = calculateDepth (buys orderbook);
          askD = calculateDepth (sells orderbook);
          totalD = bidD + askD;
          d1 = calculateDepthAtPercent orderbook mid 0.01;
          d5 = calculateDepthAtPercent orderbook mid 0.05;
          sc = calculateLiquidityScore totalD sprPct d1 d5
      in \<lparr> score = sc, bidDepth = bidD, askDepth = askD, totalDepth = totalD,
           depth1Percent = d1, depth5Percent = d5, spread = spr, spreadPercent = sprPct,
           midPrice = mid, timestamp = now \<rparr>)"

section \<open>The metrics the aggregators read\<close>

datatype VolatilityLevel = LOW | MODERATE | HIGH | EXTREME

record VolatilityMetrics =
  score :: real
  volatility :: real
  volatilityPercent :: real
  level :: VolatilityLevel
  priceChanges :: "real list"
  standardDeviation :: real
  meanPrice :: real
  timestamp :: real

record VolumeMetrics =
  score :: real
  volume24h :: real
  volumeChange :: real
  tradeCount :: real
  averageTradeSize :: real
  timestamp :: real

datatype HealthStatus = HEALTHY | WARNING | CRITICAL

record HealthComponents =
  liquidity :: real
  volatility :: real
  volume :: real
  spread :: real

record HealthScore =
  score :: real
  status :: HealthStatus
  components :: HealthComponents
  recommendation :: string
  timestamp :: real

datatype RiskLevel = LOW | MEDIUM | HIGH | EXTREME

record RiskFactors =
  liquidityRisk :: real
  volatilityRisk :: real
  spreadRisk :: real
  volumeRisk :: real

record RiskMetrics =
  score :: real
  level :: RiskLevel
  factors :: RiskFactors
  warnings :: "string list"
  timestamp :: real

text \<open>
  The message texts carry four pictographs. A \<^typ>\<open>string\<close> is a list of bytes, so each
  is written as its UTF-8 encoding.
\<close>

definition checkMark :: string where
  "checkMark = [CHR 0xE2, CHR 0x9C, CHR 0x85]"

definition warningSign :: string where
  "warningSign = [CHR 0xE2, CHR 0x9A, CHR 0xA0, CHR 0xEF, CHR 0xB8, CHR 0x8F]"

definition redCircle :: string where
  "redCircle = [CHR 0xF0, CHR 0x9F, CHR 0x94, CHR 0xB4]"

definition chartDown :: string where
  "chartDown = [CHR 0xF0, CHR 0x9F, CHR 0x93, CHR 0x89]"

fun join :: "string \<Rightarrow> string list \<Rightarrow> string" where
  "join sep [] = []"
| "join sep [x] = x"
| "join sep (x # y # ys) = x @ sep @ join sep (y # ys)"

section \<open>HealthService\<close>

definition calculateSpreadScore :: "real \<Rightarrow> real" where
  "calculateSpreadScore spreadPct =
     (if spreadPct < 0.1 then 100
      else if spreadPct < 0.5 then 80
      else if spreadPct < 1.0 then 60
      else if spreadPct < 2.0 then 40
      else if spreadPct < 5.0 then 20
      else 10)"

definition calculateOverallScore :: "HealthComponents \<Rightarrow> real" where
  "calculateOverallScore comps =
     (let weightedScore = liquidity comps * 0.35 + HealthComponents.volatility comps * 0.25
                            + volume comps * 0.25 + HealthComponents.spread comps * 0.15
      in Math_round (max 0 (min 100 weightedScore)))"

definition determineStatus :: "real \<Rightarrow> HealthStatus" where
  "determineStatus sc =
     (if sc \<ge> 70 then HEALTHY else if sc \<ge> 40 then WARNING else CRITICAL)"

definition generateRecommendation ::
  "HealthStatus \<Rightarrow> HealthComponents \<Rightarrow> VolatilityLevel \<Rightarrow> string" where
  "generateRecommendation st comps volatilityLevel =
     (let issues = (if liquidity comps < 50 then [''low liquidity''] else [])
                 @ (if HealthComponents.volatility comps < 50 then [''high volatility''] else [])
                 @ (if volume comps < 50 then [''low volume''] else [])
                 @ (if HealthComponents.spread comps < 50 then [''wide spread''] else [])
      in if st = HEALTHY then
           (if volatilityLevel = VolatilityLevel.EXTREME
            then checkMark @ '' Market is healthy but volatility is extreme. Use limit orders and monitor closely.''
            else checkMark @ '' Market is healthy and suitable for trading. Normal trading conditions apply.'')
         else if st = WARNING then
           (let issueList = (if length issues > 0 then '' ('' @ join '', '' issues @ '')'' else [])
            in warningSign @ '' Exercise caution'' @ issueList
                 @ ''. Consider using limit orders and smaller position sizes.'')
         else
           (let issueList = (if length issues > 0
                             then '' Issues: '' @ join '', '' issues @ ''.'' else [])
            in redCircle @ '' High risk market conditions.'' @ issueList
                 @ '' Avoid trading or use extreme caution with small positions and tight stop losses.''))"

definition calculateHealth ::
  "real \<Rightarrow> LiquidityMetrics \<Rightarrow> VolatilityMetrics \<Rightarrow> VolumeMetrics \<Rightarrow> HealthScore" where
  "calculateHealth now liq vol volu =
     (let comps = \<lparr> liquidity = LiquidityMetrics.score liq,
                     HealthComponents.volatility = VolatilityMetrics.score vol,
                     volume = VolumeMetrics.score volu,
                     HealthComponents.spread = calculateSpreadScore (spreadPercent liq) \<rparr>;
          sc = calculateOverallScore comps;
          st = determineStatus sc;
          rec = generateRecommendation st comps (VolatilityMetrics.level vol)
      in \<lparr> HealthScore.score = sc, status = st, components = comps, recommendation = rec,
           HealthScore.timestamp = now \<rparr>)"

section \<open>RiskService\<close>

definition calculateLiquidityRisk :: "LiquidityMetrics \<Rightarrow> real" where
  "calculateLiquidityRisk liq = 100 - LiquidityMetrics.score liq"

definition calculateVolatilityRisk :: "VolatilityMetrics \<Rightarrow> real" where
  "calculateVolatilityRisk vol = 100 - VolatilityMetrics.score vol"

definition calculateSpreadRisk :: "LiquidityMetrics \<Rightarrow> real" where
  "calculateSpreadRisk liq =
     (let spreadPct = spreadPercent liq
      in if spreadPct < 0.1 then 10
         else if spreadPct < 0.5 then 30
         else if spreadPct < 1.0 then 50
         else if spreadPct < 2.0 then 70
         else 90)"

definition calculateVolumeRisk :: "VolumeMetrics \<Rightarrow> real" where
  "calculateVolumeRisk volu = 100 - VolumeMetrics.score volu"

definition calculateOverallRiskScore :: "RiskFactors \<Rightarrow> real" where
  "calculateOverallRiskScore fs =
     (let weightedScore = liquidityRisk fs * 0.35 + volatilityRisk fs * 0.30
                            + spreadRisk fs * 0.20 + volumeRisk fs * 0.15
      in Math_round (max 0 (min 100 weightedScore)))"

definition classifyRiskLevel :: "real \<Rightarrow> RiskLevel" where
  "classifyRiskLevel sc =
     (if sc < 25 then RiskLevel.LOW
      else if sc < 50 then MEDIUM
      else if sc < 75 then RiskLevel.HIGH
      else RiskLevel.EXTREME)"

definition generateWarnings ::
  "RiskFactors \<Rightarrow> LiquidityMetrics \<Rightarrow> VolatilityMetrics \<Rightarrow> VolumeMetrics \<Rightarrow> string list" where
  "generateWarnings fs liq vol volu =
       (if liquidityRisk fs > 70 then [warningSign @ '' Very low liquidity - high slippage risk'']
        else if liquidityRisk fs > 50 then [warningSign @ '' Low liquidity - moderate slippage risk'']
        else [])
     @ (if spreadPercent liq > 2.0 then [warningSign @ '' Extremely wide spread - poor pricing'']
        else if spreadPercent liq > 1.0 then [warningSign @ '' Wide spread - high transaction costs'']
        else [])
     @ (if VolatilityMetrics.level vol = VolatilityLevel.EXTREME
        then [redCircle @ '' Extreme price volatility detected'']
        else if VolatilityMetrics.level vol = VolatilityLevel.HIGH
        then [warningSign @ '' High price volatility'']
        else [])
     @ (if tradeCount volu < 10 then [warningSign @ '' Very low trading activity''] else [])
     @ (if volumeChange volu < - 50 then [chartDown @ '' Significant volume decrease''] else [])
     @ (if depth1Percent liq < 1000 then [warningSign @ '' Shallow orderbook depth''] else [])"

definition calculateRisk ::
  "real \<Rightarrow> LiquidityMetrics \<Rightarrow> VolatilityMetrics \<Rightarrow> VolumeMetrics \<Rightarrow> RiskMetrics" where
  "calculateRisk now liq vol volu =
     (let fs = \<lparr> liquidityRisk = calculateLiquidityRisk liq,
                  volatilityRisk = calculateVolatilityRisk vol,
                  spreadRisk = calculateSpreadRisk liq,
                  volumeRisk = calculateVolumeRisk volu \<rparr>;
          riskScore = calculateOverallRiskScore fs;
          lv = classifyRiskLevel riskScore;
          ws = generateWarnings fs liq vol volu
      in \<lparr> RiskMetrics.score = riskScore, RiskMetrics.level = lv, factors = fs, warnings = ws,
           RiskMetrics.timestamp = now \<rparr>)"

section \<open>VolatilityService\<close>

text \<open>
  The loop of \<open>calculatePriceChanges\<close> runs over the adjacent pairs of the price array in
  array order and pushes one percent change for each.
\<close>

fun calculatePriceChanges :: "real list \<Rightarrow> real list" where
  "calculatePriceChanges (p # q # rest) = ((q - p) / p) * 100 # calculatePriceChanges (q # rest)"
| "calculatePriceChanges _ = []"

definition calculateMean :: "real list \<Rightarrow> real" where
  "calculateMean vals =
     (if length vals = 0 then 0
      else foldl (\<lambda>acc val. acc + val) 0 vals / real (length vals))"

definition calculateStandardDeviation :: "real list \<Rightarrow> real \<Rightarrow> real" where
  "calculateStandardDeviation vals mean =
     (if length vals = 0 then 0
      else (let squaredDiffs = map (\<lambda>v. Math_pow2 (v - mean)) vals;
                variance = calculateMean squaredDiffs
            in Math_sqrt variance))"

definition classifyVolatilityLevel :: "real \<Rightarrow> VolatilityLevel" where
  "classifyVolatilityLevel volPct =
     (if volPct < 1 then VolatilityLevel.LOW
      else if volPct < 3 then MODERATE
      else if volPct < 7 then VolatilityLevel.HIGH
      else VolatilityLevel.EXTREME)"

text \<open>
  The source switches on the level as a string and has a \<open>default\<close> branch (score 50);
  the four levels are all the values of the type here, so that branch has no case.
\<close>

definition calculateVolatilityScore :: "real \<Rightarrow> VolatilityLevel \<Rightarrow> real" where
  "calculateVolatilityScore volPct lv =
     (let sc = (case lv of
                  VolatilityLevel.LOW \<Rightarrow> 100 - (volPct * 10)
                | MODERATE \<Rightarrow> 80 - ((volPct - 1) * 15)
                | VolatilityLevel.HIGH \<Rightarrow> 50 - ((volPct - 3) * 8)
                | VolatilityLevel.EXTREME \<Rightarrow> max 0 (30 - ((volPct - 7) * 3)))
      in Math_round (max 0 (min 100 sc)))"

definition getDefaultMetrics :: "real \<Rightarrow> VolatilityMetrics" where
  "getDefaultMetrics now =
     \<lparr> VolatilityMetrics.score = 0, VolatilityMetrics.volatility = 0, volatilityPercent = 0,
       VolatilityMetrics.level = VolatilityLevel.LOW, priceChanges = [], standardDeviation = 0,
       meanPrice = 0, VolatilityMetrics.timestamp = now \<rparr>"

text \<open>
  \<open>calculateVolatility\<close> reads the clock twice: \<open>now\<close> fixes the window, \<open>now2\<close> is the
  time stamp of the result. No operation of its body can throw on a trade list, so the
  \<open>try\<close> block has no error branch here and the function is total.
\<close>

definition calculateVolatility ::
  "real \<Rightarrow> real \<Rightarrow> Trade list \<Rightarrow> real \<Rightarrow> VolatilityMetrics" where
  "calculateVolatility now now2 trades windowMinutes =
     (let windowMs = windowMinutes * 60 * 1000;
          cutoffTime = now - windowMs;
          recentTrades = filter (\<lambda>trade. executedAt trade \<ge> cutoffTime) trades
      in if length recentTrades = 0 then getDefaultMetrics now2
         else
           (let prices = map (\<lambda>t. parseFloat (executionPrice (positionDelta t))) recentTrades;
                changes = calculatePriceChanges prices;
                mean = calculateMean prices;
                sd = calculateStandardDeviation prices mean;
                vola = sd;
                volPct = (if mean > 0 then (vola / mean) * 100 else 0);
                lv = classifyVolatilityLevel volPct;
                sc = calculateVolatilityScore volPct lv
            in \<lparr> VolatilityMetrics.score = sc, VolatilityMetrics.volatility = vola,
                 volatilityPercent = volPct, VolatilityMetrics.level = lv,
                 priceChanges = changes, standardDeviation = sd, meanPrice = mean,
                 VolatilityMetrics.timestamp = now2 \<rparr>))"

section \<open>Cache\<close>

record 'a CacheEntry =
  data :: 'a
  timestamp :: real
  ttl :: real

record CacheStats =
  hits :: nat
  misses :: nat
  sets :: nat

record 'a Cache =
  store :: "string \<rightharpoonup> 'a CacheEntry"
  stats :: CacheStats

text \<open>
  The methods mutate the cache; each model takes the cache and the clock reading and
  returns the cache after the call. \<open>get\<close> also returns its result, \<open>None\<close> for \<open>null\<close>.
  The default of \<open>ttlSeconds\<close> is \<open>config.cacheTTL\<close>; the caller passes it here.
\<close>

definition Cache_set :: "'a Cache \<Rightarrow> string \<Rightarrow> 'a \<Rightarrow> real \<Rightarrow> real \<Rightarrow> 'a Cache" where
  "Cache_set c key d ttlSeconds now =
     c\<lparr> store := (store c)(key \<mapsto> \<lparr> data = d, CacheEntry.timestamp = now,
                                     ttl = ttlSeconds * 1000 \<rparr>),
        stats := (stats c)\<lparr> sets := sets (stats c) + 1 \<rparr> \<rparr>"

definition Cache_get :: "'a Cache \<Rightarrow> string \<Rightarrow> real \<Rightarrow> 'a option \<times> 'a Cache" where
  "Cache_get c key now =
     (case store c key of
        None \<Rightarrow> (None, c\<lparr> stats := (stats c)\<lparr> misses := misses (stats c) + 1 \<rparr> \<rparr>)
      | Some entry \<Rightarrow>
          (let age = now - CacheEntry.timestamp entry
           in if age > ttl entry
              then (None, c\<lparr> store := (store c)(key := None),
                             stats := (stats c)\<lparr> misses := misses (stats c) + 1 \<rparr> \<rparr>)
              else (Some (data entry),
                    c\<lparr> stats := (stats c)\<lparr> hits := hits (stats c) + 1 \<rparr> \<rparr>)))"

definition Cache_cleanup :: "'a Cache \<Rightarrow> real \<Rightarrow> 'a Cache" where
  "Cache_cleanup c now =
     c\<lparr> store := (\<lambda>key. case store c key of
                            None \<Rightarrow> None
                          | Some entry \<Rightarrow>
                              if now - CacheEntry.timestamp entry > ttl entry then None
                              else Some entry) \<rparr>"

section \<open>StreamStore and the order-book stream\<close>

record StreamStore =
  orderbooks :: "string \<rightharpoonup> OrderbookData"
  trades :: "string \<rightharpoonup> Trade list"

definition MAX_TRADES_PER_MARKET :: nat where
  "MAX_TRADES_PER_MARKET = 100"

definition setOrderbook :: "StreamStore \<Rightarrow> string \<Rightarrow> OrderbookData \<Rightarrow> StreamStore" where
  "setOrderbook st mId orderbook = st\<lparr> orderbooks := (orderbooks st)(mId \<mapsto> orderbook) \<rparr>"

definition getOrderbook :: "StreamStore \<Rightarrow> string \<Rightarrow> OrderbookData option" where
  "getOrderbook st mId = orderbooks st mId"

definition addTrade :: "StreamStore \<Rightarrow> string \<Rightarrow> Trade \<Rightarrow> StreamStore" where
  "addTrade st mId trade =
     (let existing = (case trades st mId of None \<Rightarrow> [] | Some ts \<Rightarrow> ts);
          unshifted = trade # existing;
          kept = (if length unshifted > MAX_TRADES_PER_MARKET then butlast unshifted
                  else unshifted)
      in st\<lparr> trades := (trades st)(mId \<mapsto> kept) \<rparr>)"

definition getTrades :: "StreamStore \<Rightarrow> string \<Rightarrow> Trade list" where
  "getTrades st mId = (case trades st mId of None \<Rightarrow> [] | Some ts \<Rightarrow> ts)"

text \<open>
  The callback that \<open>streamOrderbook\<close> registers: the pushed response carries an order
  book or none. It builds the \<open>OrderbookData\<close> (empty sides and sequence 0 when the response
  has no order book; \<open>sequence || 0\<close> leaves a number as it is) and stores it. The callback
  then notifies the subscribers, which does not touch the store.
\<close>

definition orderbookCallback ::
  "StreamStore \<Rightarrow> string \<Rightarrow> OrderbookData option \<Rightarrow> StreamStore" where
  "orderbookCallback st mId response =
     (let orderbook =
            (case response of
               None \<Rightarrow> \<lparr> buys = [], sells = [], sequence = 0 \<rparr>
             | Some ob \<Rightarrow>
                 \<lparr> buys = map (\<lambda>lv. \<lparr> price = price lv, quantity = quantity lv,
                                      PriceLevel.timestamp = PriceLevel.timestamp lv \<rparr>) (buys ob),
                   sells = map (\<lambda>lv. \<lparr> price = price lv, quantity = quantity lv,
                                       PriceLevel.timestamp = PriceLevel.timestamp lv \<rparr>) (sells ob),
                   sequence = sequence ob \<rparr>)
      in setOrderbook st mId orderbook)"

section \<open>The cache key of the comparison route\<close>

text \<open>
  \<open>marketIds\<close> is the array the handler gets from splitting the query parameter at the
  commas and trimming each part. \<open>Array.prototype.sort\<close> without a comparator orders strings
  by their code units; here the order is the lexicographic order of the byte lists.
\<close>

definition compareCacheKey :: "string list \<Rightarrow> string" where
  "compareCacheKey marketIds = ''compare:'' @ join '','' (sort marketIds)"

section \<open>Sample inputs\<close>

definition level :: "string \<Rightarrow> string \<Rightarrow> PriceLevel" where
  "level p q = \<lparr> price = p, quantity = q, PriceLevel.timestamp = 0 \<rparr>"

text \<open>A book whose best bid is 19.95 and best ask 20.05, 100 units each, above any deeper levels.\<close>

definition quotedBook :: "PriceLevel list \<Rightarrow> PriceLevel list \<Rightarrow> OrderbookData" where
  "quotedBook bs as =
     \<lparr> buys = level ''19.95'' ''100'' # bs, sells = level ''20.05'' ''100'' # as, sequence = 1 \<rparr>"

text \<open>A book with the same exact spread percentage 0.5, around 4 instead of 20.\<close>

definition narrowBook :: OrderbookData where
  "narrowBook =
     \<lparr> buys = [level ''3.99'' ''100''], sells = [level ''4.01'' ''100''], sequence = 1 \<rparr>"


definition bidOnlyBook :: OrderbookData where
  "bidOnlyBook =
     \<lparr> buys = [level ''19.95'' ''100'', level ''19.95'' ''100''], sells = [], sequence = 1 \<rparr>"


definition soundLiquidity :: LiquidityMetrics where
  "soundLiquidity =
     \<lparr> LiquidityMetrics.score = 100, bidDepth = 100000, askDepth = 100000,
       totalDepth = 200000, depth1Percent = 200000, depth5Percent = 200000,
       LiquidityMetrics.spread = 0, spreadPercent = 0, midPrice = 20,
       LiquidityMetrics.timestamp = 0 \<rparr>"

definition calmVolatility :: VolatilityMetrics where
  "calmVolatility =
     \<lparr> VolatilityMetrics.score = 100, VolatilityMetrics.volatility = 0,
       volatilityPercent = 0, VolatilityMetrics.level = VolatilityLevel.LOW,
       priceChanges = [0], standardDeviation = 0, meanPrice = 20,
       VolatilityMetrics.timestamp = 0 \<rparr>"

definition busyVolume :: VolumeMetrics where
  "busyVolume =
     \<lparr> VolumeMetrics.score = 100, volume24h = 10000000, volumeChange = 30,
       tradeCount = 5000, averageTradeSize = 2000, VolumeMetrics.timestamp = 0 \<rparr>"

definition midComponents :: HealthComponents where
  "midComponents =
     \<lparr> liquidity = 40, HealthComponents.volatility = 60, volume = 52,
       HealthComponents.spread = 80 \<rparr>"

definition snapshot :: "real \<Rightarrow> string \<Rightarrow> OrderbookData" where
  "snapshot sq p = \<lparr> buys = [level p ''100''], sells = [], sequence = sq \<rparr>"

definition emptyStore :: StreamStore where
  "emptyStore = \<lparr> orderbooks = Map.empty, trades = Map.empty \<rparr>"

definition tradeAt :: "string \<Rightarrow> real \<Rightarrow> Trade" where
  "tradeAt p t =
     \<lparr> orderHash = ''0x01'', subaccountId = ''0x02'', marketId = ''INJ-USDT'',
       tradeExecutionType = ''limitMatchRestingOrder'',
       positionDelta = \<lparr> tradeDirection = ''buy'', executionPrice = p,
                          executionQuantity = ''1'', executionMargin = ''0'' \<rparr>,
       payout = ''0'', fee = ''0'', executedAt = t, feeRecipient = ''inj1'', tradeId = ''1'',
       executionSide = ''maker'' \<rparr>"

text \<open>Time translation of a trade list: every \<open>executedAt\<close> moved by the same \<open>d\<close>.\<close>

definition shiftTrades :: "real \<Rightarrow> Trade list \<Rightarrow> Trade list" where
  "shiftTrades d ts = map (\<lambda>t. t\<lparr> executedAt := executedAt t + d \<rparr>) ts"

definition emptyCache :: "'a Cache" where
  "emptyCache = \<lparr> store = Map.empty, stats = \<lparr> hits = 0, misses = 0, sets = 0 \<rparr> \<rparr>"

text \<open>One value stored at time 0 with a time-to-live of 30 seconds.\<close>

definition cachedOnce :: "string Cache" where
  "cachedOnce = Cache_set emptyCache ''health:INJ-USDT'' ''v'' 30 0"

section \<open>Rounding to a double: its properties\<close>

lemma rte_int: "roundTiesToEven (of_int n) = n"
  by (simp add: roundTiesToEven_def)

lemma rte_minus: "roundTiesToEven (- y) = - roundTiesToEven y"
proof (cases "y = of_int \<lfloor>y\<rfloor>")
  case True
  then obtain n where "y = of_int n" ..
  then have "- y = of_int (- n)" by simp
  then show ?thesis
    using \<open>y = of_int n\<close> by (simp only: rte_int)
next
  case False
  then have f: "\<lfloor>- y\<rfloor> = - \<lfloor>y\<rfloor> - 1"
    by (simp add: floor_minus ceiling_altdef)
  have "of_int \<lfloor>y\<rfloor> \<le> y" "y < of_int \<lfloor>y\<rfloor> + 1"
    by linarith+
  then show ?thesis
    unfolding roundTiesToEven_def Let_def f using False
    by (auto simp: algebra_simps)
qed

lemma rte_ge: "of_int a \<le> y \<Longrightarrow> a \<le> roundTiesToEven y"
proof -
  assume "of_int a \<le> y"
  then have "a \<le> \<lfloor>y\<rfloor>" by (simp add: le_floor_iff)
  then show ?thesis
    by (simp add: roundTiesToEven_def Let_def)
qed

lemma rte_le: "y \<le> of_int b \<Longrightarrow> roundTiesToEven y \<le> b"
proof -
  assume "y \<le> of_int b"
  then have "of_int (- b) \<le> - y" by simp
  then have "- b \<le> roundTiesToEven (- y)" by (rule rte_ge)
  then show ?thesis by (simp add: rte_minus)
qed

lemma two_powr_int: "(2::real) powr real_of_int k = 2 powi k"
  by (simp add: powr_real_of_int')

lemma floor_log2_iff:
  assumes "0 < x"
  shows "(\<lfloor>log 2 x\<rfloor> = k) = (2 powi k \<le> x \<and> x < 2 powi (k + 1))"
proof -
  have "(\<lfloor>log 2 x\<rfloor> = k)
          = (2 powr real_of_int k \<le> x \<and> x < 2 powr real_of_int (k + 1))"
    using assms by (intro floor_log_eq_powr_iff) simp_all
  then show ?thesis
    by (simp only: two_powr_int)
qed

lemma binade_eq:
  assumes "- 1022 \<le> e" and "2 powi e \<le> \<bar>x\<bar>" and "\<bar>x\<bar> < 2 powi (e + 1)"
  shows "binade x = e"
proof -
  have "(2::real) powi (- 1022) \<le> 2 powi e"
    using assms(1) by (intro power_int_increasing) simp_all
  then have n: "\<not> \<bar>x\<bar> < 2 powi (- 1022)"
    using assms(2) by linarith
  have p: "0 < \<bar>x\<bar>"
    using assms(2) zero_less_power_int [of "2::real" e] by linarith
  have "\<lfloor>log 2 \<bar>x\<bar>\<rfloor> = e"
    using assms(2,3) by (simp only: floor_log2_iff [OF p])
  then show ?thesis
    using n by (simp add: binade_def)
qed

lemma binade_bounds:
  assumes "\<not> \<bar>x\<bar> < 2 powi (- 1022)"
  shows "2 powi binade x \<le> \<bar>x\<bar>" and "\<bar>x\<bar> < 2 powi (binade x + 1)" and "- 1022 \<le> binade x"
proof -
  have p: "0 < \<bar>x\<bar>"
    using assms zero_less_power_int [of "2::real" "- 1022"] by linarith
  have "\<lfloor>log 2 \<bar>x\<bar>\<rfloor> = binade x"
    using assms by (simp add: binade_def)
  then have q: "2 powi binade x \<le> \<bar>x\<bar> \<and> \<bar>x\<bar> < 2 powi (binade x + 1)"
    by (simp only: floor_log2_iff [OF p])
  show "2 powi binade x \<le> \<bar>x\<bar>" and u: "\<bar>x\<bar> < 2 powi (binade x + 1)"
    using q by blast+
  show "- 1022 \<le> binade x"
  proof (rule ccontr)
    assume "\<not> - 1022 \<le> binade x"
    then have "binade x + 1 \<le> - 1022" by simp
    then have "(2::real) powi (binade x + 1) \<le> 2 powi (- 1022)"
      by (intro power_int_increasing) simp_all
    then show False using u assms by linarith
  qed
qed

text \<open>The rounding of a number whose binade is known: how the concrete values are computed.\<close>

lemma toDouble_eval:
  assumes "- 1022 \<le> e" and "2 powi e \<le> \<bar>x\<bar>" and "\<bar>x\<bar> < 2 powi (e + 1)"
  shows "toDouble x = of_int (roundTiesToEven (x / 2 powi (e - 52))) * 2 powi (e - 52)"
  by (simp add: toDouble_def Let_def binade_eq [OF assms])


lemma binade_minus: "binade (- x) = binade x"
  by (simp add: binade_def)

lemma toDouble_minus: "toDouble (- x) = - toDouble x"
  by (simp add: toDouble_def Let_def binade_minus rte_minus)

lemma toDouble_fix:
  assumes "binade (of_int n * 2 powi (k - 52)) = k"
  shows "toDouble (of_int n * 2 powi (k - 52)) = of_int n * 2 powi (k - 52)"
proof -
  have "of_int n * 2 powi (k - 52) / 2 powi (k - 52) = (of_int n :: real)"
    by simp
  then show ?thesis
    unfolding toDouble_def Let_def assms by (simp only: rte_int)
qed

lemma ulp_scale: "(2::real) powi (e - 52) * 4503599627370496 = 2 powi e"
  by (simp add: power_int_diff)

lemma powi_Suc: "(2::real) powi (e + 1) = 2 * 2 powi e"
  by (simp add: power_int_add_1')

lemma ulp_pos: "0 < (2::real) powi k"
  by simp

text \<open>A double is its own rounding: rounding twice is rounding once.\<close>

lemma toDouble_idem_nonneg:
  assumes "0 \<le> x"
  shows "toDouble (toDouble x) = toDouble x"
proof -
  define e where "e = binade x"
  define u :: real where "u = 2 powi (e - 52)"
  define n where "n = roundTiesToEven (x / u)"
  have u0: "0 < u" unfolding u_def by (rule ulp_pos)
  have d: "toDouble x = of_int n * 2 powi (e - 52)"
    by (simp add: toDouble_def Let_def n_def u_def e_def)
  have n0: "0 \<le> n"
    unfolding n_def using assms u0 by (intro rte_ge) simp
  have us: "u * 4503599627370496 = 2 powi e"
    unfolding u_def by (rule ulp_scale)
  show ?thesis
  proof (cases "\<bar>x\<bar> < 2 powi (- 1022)")
    case True
    then have e: "e = - 1022" by (simp add: e_def binade_def)
    have "x < 2 powi e" using True assms e by simp
    then have "x / u < 4503599627370496"
      using u0 us by (simp add: field_simps)
    then have "x / u \<le> of_int 4503599627370496" by simp
    then have "n \<le> 4503599627370496" unfolding n_def by (rule rte_le)
    then have "of_int n * u \<le> 4503599627370496 * u"
      using u0 by (simp add: mult_right_mono)
    then have le: "of_int n * u \<le> 2 powi (- 1022)"
      using us e by (simp add: mult.commute)
    have ge: "0 \<le> of_int n * u" using n0 u0 by simp
    have "binade (of_int n * u) = - 1022"
    proof (cases "\<bar>of_int n * u\<bar> < 2 powi (- 1022)")
      case True
      then show ?thesis by (simp add: binade_def)
    next
      case False
      then have eq: "\<bar>of_int n * u\<bar> = 2 powi (- 1022)" using le ge by simp
      show ?thesis
      proof (rule binade_eq)
        show "2 powi (- 1022) \<le> \<bar>of_int n * u\<bar>" using eq by simp
        show "\<bar>of_int n * u\<bar> < 2 powi (- 1022 + 1)"
          unfolding eq powi_Suc using ulp_pos [of "- 1022"] by simp
      qed simp
    qed
    then have "binade (of_int n * 2 powi (e - 52)) = e"
      by (simp add: u_def e)
    then show ?thesis
      unfolding d by (rule toDouble_fix)
  next
    case False
    note b = binade_bounds [OF False, folded e_def]
    have xl: "2 powi e \<le> x" and xu: "x < 2 powi (e + 1)"
      using b(1,2) assms by simp_all
    have "4503599627370496 \<le> x / u"
      using xl u0 us by (simp add: field_simps)
    then have "of_int 4503599627370496 \<le> x / u" by simp
    then have nl: "4503599627370496 \<le> n" unfolding n_def by (rule rte_ge)
    have "x / u < 9007199254740992"
      using xu u0 us unfolding powi_Suc by (simp add: field_simps)
    then have "x / u \<le> of_int 9007199254740992" by simp
    then have nu: "n \<le> 9007199254740992" unfolding n_def by (rule rte_le)
    have dl: "2 powi e \<le> of_int n * u"
    proof -
      have "4503599627370496 * u \<le> of_int n * u"
        using nl u0 by (intro mult_right_mono) simp_all
      then show ?thesis using us by (simp add: mult.commute)
    qed
    show ?thesis
    proof (cases "n = 9007199254740992")
      case True
      have v: "of_int n * u = 2 powi (e + 1)"
        unfolding True powi_Suc using us by simp
      have w: "real_of_int n * 2 powi (e - 52)
                 = real_of_int 4503599627370496 * 2 powi ((e + 1) - 52)"
        using v ulp_scale [of "e + 1"] by (simp add: u_def mult.commute)
      have "binade (2 powi (e + 1)) = e + 1"
      proof (rule binade_eq)
        show "- 1022 \<le> e + 1" using b(3) by simp
        show "2 powi (e + 1) \<le> \<bar>(2::real) powi (e + 1)\<bar>" by simp
        show "\<bar>(2::real) powi (e + 1)\<bar> < 2 powi (e + 1 + 1)"
          by (simp add: power_int_strict_increasing)
      qed
      then have "binade (of_int 4503599627370496 * 2 powi ((e + 1) - 52)) = e + 1"
        using v w by (simp add: u_def)
      then show ?thesis
        unfolding d w by (rule toDouble_fix)
    next
      case False
      then have "n \<le> 9007199254740991" using nu by simp
      then have "of_int n * u \<le> 9007199254740991 * u"
        using u0 by (intro mult_right_mono) simp_all
      also have "\<dots> < 9007199254740992 * u" using u0 by simp
      also have "\<dots> = 2 powi (e + 1)" unfolding powi_Suc using us by simp
      finally have du: "of_int n * u < 2 powi (e + 1)" .
      have p: "0 \<le> of_int n * u" using n0 u0 by simp
      have "binade (of_int n * u) = e"
        using b(3) dl du p by (intro binade_eq) simp_all
      then have "binade (of_int n * 2 powi (e - 52)) = e"
        by (simp add: u_def)
      then show ?thesis
        unfolding d by (rule toDouble_fix)
    qed
  qed
qed

lemma toDouble_idem: "toDouble (toDouble x) = toDouble x"
proof (cases "0 \<le> x")
  case True
  then show ?thesis by (rule toDouble_idem_nonneg)
next
  case False
  then have "0 \<le> - x" by simp
  then have "toDouble (toDouble (- x)) = toDouble (- x)" by (rule toDouble_idem_nonneg)
  then show ?thesis by (simp add: toDouble_minus)
qed

text \<open>Rounding to a double is monotone.\<close>

lemma rte_floor: "\<lfloor>y\<rfloor> \<le> roundTiesToEven y" "roundTiesToEven y \<le> \<lfloor>y\<rfloor> + 1"
  by (simp_all add: roundTiesToEven_def Let_def)

lemma rte_mono:
  assumes "a \<le> b"
  shows "roundTiesToEven a \<le> roundTiesToEven b"
proof (cases "\<lfloor>a\<rfloor> < \<lfloor>b\<rfloor>")
  case True
  then have "roundTiesToEven a \<le> \<lfloor>b\<rfloor>"
    using rte_floor(2) [of a] by linarith
  then show ?thesis
    using rte_floor(1) [of b] by linarith
next
  case False
  then have f: "\<lfloor>a\<rfloor> = \<lfloor>b\<rfloor>"
    using floor_mono [OF assms] by linarith
  show ?thesis
    using assms unfolding roundTiesToEven_def Let_def f by auto
qed

lemma binade_ge: "- 1022 \<le> binade x"
proof (cases "\<bar>x\<bar> < 2 powi (- 1022)")
  case True
  then show ?thesis by (simp add: binade_def)
next
  case False
  then show ?thesis by (rule binade_bounds(3))
qed

lemma binade_mono:
  assumes "\<bar>x\<bar> \<le> \<bar>y\<bar>"
  shows "binade x \<le> binade y"
proof (cases "\<bar>x\<bar> < 2 powi (- 1022)")
  case True
  then have "binade x = - 1022" by (simp add: binade_def)
  then show ?thesis using binade_ge [of y] by simp
next
  case False
  then have ny: "\<not> \<bar>y\<bar> < 2 powi (- 1022)" using assms by linarith
  have "2 powi binade x \<le> \<bar>x\<bar>" using False by (rule binade_bounds(1))
  moreover have "\<bar>y\<bar> < 2 powi (binade y + 1)" using ny by (rule binade_bounds(2))
  ultimately have lt: "(2::real) powi binade x < 2 powi (binade y + 1)"
    using assms by linarith
  show ?thesis
  proof (rule ccontr)
    assume "\<not> binade x \<le> binade y"
    then have "binade y + 1 \<le> binade x" by simp
    then have "(2::real) powi (binade y + 1) \<le> 2 powi binade x"
      by (intro power_int_increasing) simp_all
    then show False using lt by linarith
  qed
qed

lemma toDouble_upper:
  assumes "0 \<le> x"
  shows "toDouble x \<le> 2 powi (binade x + 1)"
proof -
  define u :: real where "u = 2 powi (binade x - 52)"
  have u0: "0 < u" unfolding u_def by (rule ulp_pos)
  have us: "u * 4503599627370496 = 2 powi binade x"
    unfolding u_def by (rule ulp_scale)
  have "x < 2 powi (binade x + 1)"
  proof (cases "\<bar>x\<bar> < 2 powi (- 1022)")
    case True
    then have "binade x = - 1022" by (simp add: binade_def)
    then have "(2::real) powi (- 1022) < 2 powi (binade x + 1)"
      by (simp add: power_int_strict_increasing)
    then show ?thesis using True assms by simp
  next
    case False
    then show ?thesis using binade_bounds(2) [OF False] assms by simp
  qed
  then have "x / u < 9007199254740992"
    using u0 us unfolding powi_Suc by (simp add: field_simps)
  then have "x / u \<le> of_int 9007199254740992" by simp
  then have "roundTiesToEven (x / u) \<le> 9007199254740992" by (rule rte_le)
  then have "of_int (roundTiesToEven (x / u)) * u \<le> 9007199254740992 * u"
    using u0 by (intro mult_right_mono) simp_all
  also have "\<dots> = 2 powi (binade x + 1)" unfolding powi_Suc using us by simp
  finally show ?thesis
    by (simp add: toDouble_def Let_def u_def)
qed

lemma toDouble_lower:
  assumes "0 \<le> y" and "\<not> \<bar>y\<bar> < 2 powi (- 1022)"
  shows "2 powi binade y \<le> toDouble y"
proof -
  define u :: real where "u = 2 powi (binade y - 52)"
  have u0: "0 < u" unfolding u_def by (rule ulp_pos)
  have us: "u * 4503599627370496 = 2 powi binade y"
    unfolding u_def by (rule ulp_scale)
  have "2 powi binade y \<le> y"
    using binade_bounds(1) [OF assms(2)] assms(1) by simp
  then have "4503599627370496 \<le> y / u"
    using u0 us by (simp add: field_simps)
  then have "of_int 4503599627370496 \<le> y / u" by simp
  then have "4503599627370496 \<le> roundTiesToEven (y / u)" by (rule rte_ge)
  then have m: "4503599627370496 * u \<le> of_int (roundTiesToEven (y / u)) * u"
    using u0 by (intro mult_right_mono) simp_all
  have "2 powi binade y = 4503599627370496 * u"
    using us by (simp add: mult.commute)
  also have "\<dots> \<le> of_int (roundTiesToEven (y / u)) * u"
    by (rule m)
  also have "\<dots> = toDouble y"
    by (simp add: toDouble_def Let_def u_def)
  finally show ?thesis .
qed

lemma toDouble_nonneg: "0 \<le> x \<Longrightarrow> 0 \<le> toDouble x"
proof -
  assume a: "0 \<le> x"
  have "0 \<le> x / 2 powi (binade x - 52)" using a by simp
  then have "of_int 0 \<le> x / 2 powi (binade x - 52)" by simp
  then have "0 \<le> roundTiesToEven (x / 2 powi (binade x - 52))" by (rule rte_ge)
  then show ?thesis
    by (simp add: toDouble_def Let_def)
qed

lemma toDouble_mono_nonneg:
  assumes "0 \<le> x" and "x \<le> y"
  shows "toDouble x \<le> toDouble y"
proof -
  have y0: "0 \<le> y" using assms by simp
  have b: "binade x \<le> binade y"
    using assms by (intro binade_mono) simp
  show ?thesis
  proof (cases "binade x = binade y")
    case True
    have "x / 2 powi (binade y - 52) \<le> y / 2 powi (binade y - 52)"
      using assms(2) by (simp add: divide_right_mono)
    then have "roundTiesToEven (x / 2 powi (binade y - 52))
                 \<le> roundTiesToEven (y / 2 powi (binade y - 52))"
      by (rule rte_mono)
    then show ?thesis
      by (simp add: toDouble_def Let_def True mult_right_mono)
  next
    case False
    then have lt: "binade x + 1 \<le> binade y" using b by simp
    then have "binade y \<noteq> - 1022" using binade_ge [of x] by simp
    then have ny: "\<not> \<bar>y\<bar> < 2 powi (- 1022)"
      by (auto simp: binade_def)
    have "toDouble x \<le> 2 powi (binade x + 1)"
      using assms(1) by (rule toDouble_upper)
    also have "\<dots> \<le> 2 powi binade y"
      using lt by (intro power_int_increasing) simp_all
    also have "\<dots> \<le> toDouble y"
      using y0 ny by (rule toDouble_lower)
    finally show ?thesis .
  qed
qed

lemma toDouble_mono:
  assumes "x \<le> y"
  shows "toDouble x \<le> toDouble y"
proof (cases "0 \<le> x")
  case True
  then show ?thesis using assms by (rule toDouble_mono_nonneg)
next
  case False
  show ?thesis
  proof (cases "0 \<le> y")
    case True
    have "0 \<le> toDouble (- x)" using False by (intro toDouble_nonneg) simp
    then have "toDouble x \<le> 0" by (simp add: toDouble_minus)
    also have "0 \<le> toDouble y" using True by (rule toDouble_nonneg)
    finally show ?thesis .
  next
    case False
    then have "0 \<le> - y" "- y \<le> - x" using assms by simp_all
    then have "toDouble (- y) \<le> toDouble (- x)" by (rule toDouble_mono_nonneg)
    then show ?thesis by (simp add: toDouble_minus)
  qed
qed

text \<open>
  A threshold written as a decimal literal is itself rounded to a double. When the literal
  rounds upwards, as 0.1 does, no double lies between the decimal and its double, so a
  double is below the one exactly when it is below the other.
\<close>

lemma double_below_literal:
  assumes "c \<le> toDouble c"
  shows "(toDouble x < toDouble c) = (toDouble x < c)"
proof
  assume a: "toDouble x < toDouble c"
  show "toDouble x < c"
  proof (rule ccontr)
    assume "\<not> toDouble x < c"
    then have "c \<le> toDouble x" by simp
    then have "toDouble c \<le> toDouble (toDouble x)" by (rule toDouble_mono)
    then show False using a by (simp add: toDouble_idem)
  qed
next
  assume "toDouble x < c"
  then show "toDouble x < toDouble c" using assms by linarith
qed

lemma tenth: "toDouble (1 / 10) = 3602879701896397 / 36028797018963968"
  by (subst toDouble_eval [of "- 4"]) (simp_all add: roundTiesToEven_def)

lemma tenth_threshold: "(toDouble x < toDouble (1 / 10)) = (toDouble x < 1 / 10)"
  by (rule double_below_literal) (simp add: tenth)

section \<open>Evaluation lemmas\<close>

lemmas parse_defs = parseFloat_def splitSign_def isWhiteSpace_def isDigit_def digitsVal_def
  digitVal_def exponentPart_def


text \<open>
  The doubles nearest to 19.95, 20.05, 3.99 and 4.01 are not these decimals: 19.95 and 3.99
  are read a little low and a little high, 20.05 and 4.01 the other way round.
\<close>

lemma parseFloat_1995: "parseFloat ''19.95'' = 5615425785377587 / 281474976710656"
proof -
  have "parseFloat ''19.95'' = toDouble (399 / 20)"
    by (simp add: parse_defs)
  also have "\<dots> = 5615425785377587 / 281474976710656"
    by (subst toDouble_eval [of 4]) (simp_all add: roundTiesToEven_def)
  finally show ?thesis .
qed

lemma parseFloat_2005: "parseFloat ''20.05'' = 5643573283048653 / 281474976710656"
proof -
  have "parseFloat ''20.05'' = toDouble (401 / 20)"
    by (simp add: parse_defs)
  also have "\<dots> = 5643573283048653 / 281474976710656"
    by (subst toDouble_eval [of 4]) (simp_all add: roundTiesToEven_def)
  finally show ?thesis .
qed

lemma parseFloat_399: "parseFloat ''3.99'' = 2246170314151035 / 562949953421312"
proof -
  have "parseFloat ''3.99'' = toDouble (399 / 100)"
    by (simp add: parse_defs)
  also have "\<dots> = 2246170314151035 / 562949953421312"
    by (subst toDouble_eval [of 1]) (simp_all add: roundTiesToEven_def)
  finally show ?thesis .
qed

lemma parseFloat_401: "parseFloat ''4.01'' = 2257429313219461 / 562949953421312"
proof -
  have "parseFloat ''4.01'' = toDouble (401 / 100)"
    by (simp add: parse_defs)
  also have "\<dots> = 2257429313219461 / 562949953421312"
    by (subst toDouble_eval [of 2]) (simp_all add: roundTiesToEven_def)
  finally show ?thesis .
qed

lemma parseFloat_100: "parseFloat ''100'' = 100"
proof -
  have "parseFloat ''100'' = toDouble 100"
    by (simp add: parse_defs)
  also have "\<dots> = 100"
    by (subst toDouble_eval [of 6]) (simp_all add: roundTiesToEven_def)
  finally show ?thesis .
qed

lemma parseFloat_10: "parseFloat ''10'' = 10"
proof -
  have "parseFloat ''10'' = toDouble 10"
    by (simp add: parse_defs)
  also have "\<dots> = 10"
    by (subst toDouble_eval [of 3]) (simp_all add: roundTiesToEven_def)
  finally show ?thesis .
qed

lemma parseFloat_20: "parseFloat ''20'' = 20"
proof -
  have "parseFloat ''20'' = toDouble 20"
    by (simp add: parse_defs)
  also have "\<dots> = 20"
    by (subst toDouble_eval [of 4]) (simp_all add: roundTiesToEven_def)
  finally show ?thesis .
qed

lemma level_sel: "price (level p q) = p" "quantity (level p q) = q"
  by (simp_all add: level_def)

lemma tradeAt_sel:
  "executedAt (tradeAt p t) = t" "executionPrice (positionDelta (tradeAt p t)) = p"
  by (simp_all add: tradeAt_def)

lemma shift_tradeAt:
  "(tradeAt p t)\<lparr> executedAt := executedAt (tradeAt p t) + d \<rparr> = tradeAt p (t + d)"
  by (simp add: tradeAt_def)

lemma Math_round_mono: "x \<le> y \<Longrightarrow> Math_round x \<le> Math_round y"
  by (simp add: Math_round_def floor_mono)

lemma calculateLiquidity_fields:
  "midPrice (calculateLiquidity now ob) = calculateMidPrice ob"
  "LiquidityMetrics.spread (calculateLiquidity now ob) = calculateSpread ob"
  "spreadPercent (calculateLiquidity now ob) =
     (if calculateMidPrice ob > 0
      then toDouble (toDouble (calculateSpread ob / calculateMidPrice ob) * 100) else 0)"
  "bidDepth (calculateLiquidity now ob) = calculateDepth (buys ob)"
  "askDepth (calculateLiquidity now ob) = calculateDepth (sells ob)"
  "totalDepth (calculateLiquidity now ob) = calculateDepth (buys ob) + calculateDepth (sells ob)"
  "depth1Percent (calculateLiquidity now ob) =
     calculateDepthAtPercent ob (calculateMidPrice ob) 0.01"
  "depth5Percent (calculateLiquidity now ob) =
     calculateDepthAtPercent ob (calculateMidPrice ob) 0.05"
  "LiquidityMetrics.score (calculateLiquidity now ob) =
     calculateLiquidityScore (calculateDepth (buys ob) + calculateDepth (sells ob))
       (if calculateMidPrice ob > 0
      then toDouble (toDouble (calculateSpread ob / calculateMidPrice ob) * 100) else 0)
       (calculateDepthAtPercent ob (calculateMidPrice ob) 0.01)
       (calculateDepthAtPercent ob (calculateMidPrice ob) 0.05)"
  "LiquidityMetrics.timestamp (calculateLiquidity now ob) = now"
  unfolding calculateLiquidity_def Let_def by simp_all

text \<open>
  The thresholds 0.5, 1.0, 2.0 and 5.0 of the spread score and the spread risk are doubles.
  0.1 is not; the spread percentage is a double, so it is below 0.1 exactly when it is
  below the double that the literal \<open>0.1\<close> denotes in the code.
\<close>

lemma spreadPercent_tenth:
  "(spreadPercent (calculateLiquidity now ob) < 1 / 10)
     = (spreadPercent (calculateLiquidity now ob) < toDouble (1 / 10))"
proof (cases "calculateMidPrice ob > 0")
  case True
  then have "spreadPercent (calculateLiquidity now ob)
               = toDouble (toDouble (calculateSpread ob / calculateMidPrice ob) * 100)"
    by (simp add: calculateLiquidity_fields)
  then show ?thesis
    by (simp only: tenth_threshold)
next
  case False
  then have "spreadPercent (calculateLiquidity now ob) = 0"
    by (simp add: calculateLiquidity_fields)
  then show ?thesis
    by (simp add: tenth)
qed

section \<open>LiquidityService on a one-sided book\<close>







section \<open>Depth around a zero mid price\<close>

lemma depth_at_zero:
  assumes "\<forall>l\<in>set (buys ob). 0 \<le> parseFloat (price l)"
    and "\<forall>l\<in>set (sells ob). 0 < parseFloat (price l)"
  shows "calculateDepthAtPercent ob 0 pct = calculateDepth (buys ob)"
proof -
  have b: "filter (\<lambda>l. 0 \<le> parseFloat (price l)) (buys ob) = buys ob"
    using assms(1) by simp
  have a: "filter (\<lambda>l. parseFloat (price l) \<le> 0) (sells ob) = []"
    using assms(2) by (auto simp: filter_empty_conv)
  show ?thesis
    by (simp add: calculateDepthAtPercent_def calculateDepth_def a b)
qed

text \<open>
  Claim C10. Whenever \<open>midPrice = 0\<close> (as it is when a side of the book is empty), and for
  positive prices (a bid at price 0 passes the filter as well), both bounds of
  \<open>calculateDepthAtPercent\<close> are 0: every bid level passes \<open>price \<ge> 0\<close> and no ask level
  passes \<open>price \<le> 0\<close>. So \<open>depth1Percent\<close> and \<open>depth5Percent\<close> are both the sum of all
  bid quantities; both are 0 when buys is empty, and both are \<open>bidDepth\<close> when sells is
  empty.
\<close>

theorem depth_at_zero_mid:
  assumes "midPrice (calculateLiquidity now ob) = 0"
    and "\<forall>l\<in>set (buys ob). 0 \<le> parseFloat (price l)"
    and "\<forall>l\<in>set (sells ob). 0 < parseFloat (price l)"
  shows "depth1Percent (calculateLiquidity now ob) = calculateDepth (buys ob)
       \<and> depth5Percent (calculateLiquidity now ob) = calculateDepth (buys ob)
       \<and> (buys ob = [] \<longrightarrow> depth1Percent (calculateLiquidity now ob) = 0
                          \<and> depth5Percent (calculateLiquidity now ob) = 0)
       \<and> (sells ob = [] \<longrightarrow>
            depth1Percent (calculateLiquidity now ob) = bidDepth (calculateLiquidity now ob)
            \<and> depth5Percent (calculateLiquidity now ob) = bidDepth (calculateLiquidity now ob))"
proof -
  have m: "calculateMidPrice ob = 0"
    using assms(1) by (simp only: calculateLiquidity_fields)
  have d: "calculateDepthAtPercent ob 0 pct = calculateDepth (buys ob)" for pct
    using assms(2,3) by (rule depth_at_zero)
  have e: "calculateDepth [] = 0"
    by (simp add: calculateDepth_def)
  show ?thesis
    by (simp only: calculateLiquidity_fields m d) (simp add: e)
qed

theorem depth_at_zero_mid_witness:
  "midPrice (calculateLiquidity 0 bidOnlyBook) = 0
   \<and> 0 \<le> parseFloat ''19.95''
   \<and> sells bidOnlyBook = []
   \<and> depth1Percent (calculateLiquidity 0 bidOnlyBook) = 200
   \<and> depth5Percent (calculateLiquidity 0 bidOnlyBook) = 200
   \<and> bidDepth (calculateLiquidity 0 bidOnlyBook) = 200"
proof -
  have h1: "midPrice (calculateLiquidity 0 bidOnlyBook) = 0"
    by (simp add: calculateLiquidity_fields calculateMidPrice_def bidOnlyBook_def)
  have p: "0 \<le> parseFloat ''19.95''"
    by (simp add: parseFloat_1995)
  have h2: "\<forall>l\<in>set (buys bidOnlyBook). 0 \<le> parseFloat (price l)"
    using p by (simp add: bidOnlyBook_def level_sel)
  have h3: "\<forall>l\<in>set (sells bidOnlyBook). 0 < parseFloat (price l)"
    by (simp add: bidOnlyBook_def)
  have d: "calculateDepth (buys bidOnlyBook) = 200"
    by (simp add: calculateDepth_def bidOnlyBook_def level_sel parseFloat_100)
  have s: "sells bidOnlyBook = []"
    by (simp add: bidOnlyBook_def)
  show ?thesis
    using h1 p depth_at_zero_mid [OF h1 h2 h3] by (simp add: d s)
qed

section \<open>The quoted book 19.95 / 20.05\<close>

lemma quoted_mid: "calculateMidPrice (quotedBook bs as) = 20"
proof -
  have s: "parseFloat ''19.95'' + parseFloat ''20.05'' = 40"
    by (simp add: parseFloat_1995 parseFloat_2005)
  have a: "toDouble 40 = 40"
    by (subst toDouble_eval [of 5]) (simp_all add: roundTiesToEven_def)
  have b: "toDouble (40 / 2) = 20"
    by (subst toDouble_eval [of 4]) (simp_all add: roundTiesToEven_def)
  have n: "parseFloat ''19.95'' \<noteq> 0" "parseFloat ''20.05'' \<noteq> 0"
    by (simp_all add: parseFloat_1995 parseFloat_2005)
  have "calculateMidPrice (quotedBook bs as)
          = toDouble (toDouble (parseFloat ''19.95'' + parseFloat ''20.05'') / 2)"
    using n by (simp add: calculateMidPrice_def quotedBook_def level_sel)
  then show ?thesis
    by (simp only: s a b)
qed

lemma quoted_spread:
  "calculateSpread (quotedBook bs as) = 14073748835533 / 140737488355328"
proof -
  have "calculateSpread (quotedBook bs as)
          = \<bar>toDouble (parseFloat ''20.05'' - parseFloat ''19.95'')\<bar>"
    by (simp add: calculateSpread_def quotedBook_def level_sel)
  also have "toDouble (parseFloat ''20.05'' - parseFloat ''19.95'')
               = 14073748835533 / 140737488355328"
    unfolding parseFloat_1995 parseFloat_2005
    by (subst toDouble_eval [of "- 4"]) (simp_all add: roundTiesToEven_def)
  finally show ?thesis by simp
qed

lemma quoted_spreadPercent:
  "spreadPercent (calculateLiquidity now (quotedBook bs as))
     = 70368744177665 / 140737488355328"
proof -
  have q: "toDouble (14073748835533 / 140737488355328 / 20)
             = 5764607523034317 / 1152921504606846976"
    by (subst toDouble_eval [of "- 8"]) (simp_all add: roundTiesToEven_def)
  have r: "toDouble (5764607523034317 / 1152921504606846976 * 100)
             = 70368744177665 / 140737488355328"
    by (subst toDouble_eval [of "- 1"]) (simp_all add: roundTiesToEven_def)
  have "spreadPercent (calculateLiquidity now (quotedBook bs as))
          = toDouble (toDouble (14073748835533 / 140737488355328 / 20) * 100)"
    by (simp add: calculateLiquidity_fields quoted_mid quoted_spread)
  then show ?thesis
    by (simp only: q r)
qed

text \<open>
  Claim C2, as the code has it. For the order book with best bid 19.95 (quantity 100) and
  best ask 20.05 (quantity 100), whatever levels lie behind them, \<open>calculateLiquidity\<close>
  yields \<open>midPrice = 20\<close>, but not \<open>spread = 0.10\<close> and not \<open>spreadPercent = 0.5\<close>: the
  doubles nearest 19.95 and 20.05 differ by \<open>0.1 + 2^(-47)/5\<close> (0.10000000000000142), and
  the spread percentage is \<open>0.5 + 2^(-47)\<close> (0.5000000000000071). That is not below 0.5,
  so \<open>HealthService.calculateSpreadScore\<close> returns 60 and \<open>RiskService.calculateSpreadRisk\<close>
  returns 50.
\<close>

theorem quoted_book_scores:
  "midPrice (calculateLiquidity now (quotedBook bs as)) = 20
   \<and> LiquidityMetrics.spread (calculateLiquidity now (quotedBook bs as))
       = 1 / 10 + 1 / (5 * 2 ^ 47)
   \<and> spreadPercent (calculateLiquidity now (quotedBook bs as)) = 1 / 2 + 1 / 2 ^ 47
   \<and> calculateSpreadScore (spreadPercent (calculateLiquidity now (quotedBook bs as))) = 60
   \<and> calculateSpreadRisk (calculateLiquidity now (quotedBook bs as)) = 50"
proof -
  have a: "midPrice (calculateLiquidity now (quotedBook bs as)) = 20"
    by (simp add: calculateLiquidity_fields quoted_mid)
  have b: "LiquidityMetrics.spread (calculateLiquidity now (quotedBook bs as))
             = 1 / 10 + 1 / (5 * 2 ^ 47)"
    by (simp add: calculateLiquidity_fields quoted_spread)
  have p: "spreadPercent (calculateLiquidity now (quotedBook bs as)) = 1 / 2 + 1 / 2 ^ 47"
    by (simp add: quoted_spreadPercent)
  have c: "calculateSpreadScore (spreadPercent (calculateLiquidity now (quotedBook bs as))) = 60"
    by (simp add: quoted_spreadPercent calculateSpreadScore_def)
  have d: "calculateSpreadRisk (calculateLiquidity now (quotedBook bs as)) = 50"
    by (simp add: quoted_spreadPercent calculateSpreadRisk_def)
  show ?thesis
    by (intro conjI a b c d p)
qed

text \<open>
  On this book the spread is not 0.10, the spread percentage is not 0.5, and the two
  functions do not return 80 and 30.
\<close>

theorem quoted_book_counterexample:
  "LiquidityMetrics.spread (calculateLiquidity 0 (quotedBook [] [])) \<noteq> 1 / 10
   \<and> spreadPercent (calculateLiquidity 0 (quotedBook [] [])) \<noteq> 1 / 2
   \<and> calculateSpreadScore (spreadPercent (calculateLiquidity 0 (quotedBook [] []))) \<noteq> 80
   \<and> calculateSpreadRisk (calculateLiquidity 0 (quotedBook [] [])) \<noteq> 30"
  by (simp add: quoted_spreadPercent calculateSpreadScore_def calculateSpreadRisk_def)
     (simp add: calculateLiquidity_fields quoted_spread)

text \<open>
  The 60 and 50 come from the rounding, not from the strict test at an exact 0.5: in
  exact arithmetic the book 3.99 / 4.01 has the same spread percentage 0.5, and there the
  doubles give \<open>0.5 - 3 * 2^(-48)\<close> (0.49999999999998934), spread score 80 and spread
  risk 30.
\<close>

lemma narrow_book_scores:
  "midPrice (calculateLiquidity now narrowBook) = 4
   \<and> spreadPercent (calculateLiquidity now narrowBook) = 1 / 2 - 3 / 2 ^ 48
   \<and> calculateSpreadScore (spreadPercent (calculateLiquidity now narrowBook)) = 80
   \<and> calculateSpreadRisk (calculateLiquidity now narrowBook) = 30"
proof -
  have s: "parseFloat ''3.99'' + parseFloat ''4.01'' = 8"
    by (simp add: parseFloat_399 parseFloat_401)
  have e8: "toDouble 8 = 8"
    by (subst toDouble_eval [of 3]) (simp_all add: roundTiesToEven_def)
  have e4: "toDouble (8 / 2) = 4"
    by (subst toDouble_eval [of 2]) (simp_all add: roundTiesToEven_def)
  have n: "parseFloat ''3.99'' \<noteq> 0" "parseFloat ''4.01'' \<noteq> 0"
    by (simp_all add: parseFloat_399 parseFloat_401)
  have "calculateMidPrice narrowBook
          = toDouble (toDouble (parseFloat ''3.99'' + parseFloat ''4.01'') / 2)"
    using n by (simp add: calculateMidPrice_def narrowBook_def level_sel)
  then have m: "calculateMidPrice narrowBook = 4"
    by (simp only: s e8 e4)
  have "calculateSpread narrowBook = \<bar>toDouble (parseFloat ''4.01'' - parseFloat ''3.99'')\<bar>"
    by (simp add: calculateSpread_def narrowBook_def level_sel)
  also have "toDouble (parseFloat ''4.01'' - parseFloat ''3.99'')
               = 5629499534213 / 281474976710656"
    unfolding parseFloat_399 parseFloat_401
    by (subst toDouble_eval [of "- 6"]) (simp_all add: roundTiesToEven_def)
  finally have sp: "calculateSpread narrowBook = 5629499534213 / 281474976710656"
    by simp
  have q: "toDouble (5629499534213 / 281474976710656 / 4) = 5629499534213 / 1125899906842624"
    by (subst toDouble_eval [of "- 8"]) (simp_all add: roundTiesToEven_def)
  have r: "toDouble (5629499534213 / 1125899906842624 * 100)
             = 140737488355325 / 281474976710656"
    by (subst toDouble_eval [of "- 2"]) (simp_all add: roundTiesToEven_def)
  have "spreadPercent (calculateLiquidity now narrowBook)
          = toDouble (toDouble (5629499534213 / 281474976710656 / 4) * 100)"
    by (simp add: calculateLiquidity_fields m sp)
  then have p: "spreadPercent (calculateLiquidity now narrowBook)
                  = 140737488355325 / 281474976710656"
    by (simp only: q r)
  have a: "midPrice (calculateLiquidity now narrowBook) = 4"
    by (simp add: calculateLiquidity_fields m)
  have b: "spreadPercent (calculateLiquidity now narrowBook) = 1 / 2 - 3 / 2 ^ 48"
    by (simp add: p)
  have c: "calculateSpreadScore (spreadPercent (calculateLiquidity now narrowBook)) = 80"
    by (simp add: p calculateSpreadScore_def)
  have d: "calculateSpreadRisk (calculateLiquidity now narrowBook) = 30"
    by (simp add: p calculateSpreadRisk_def)
  show ?thesis
    by (intro conjI a b c d)
qed

section \<open>Risk is not the complement of health\<close>

lemma health_score_field:
  "HealthScore.score (calculateHealth now liq vol volu) =
     calculateOverallScore
       \<lparr> liquidity = LiquidityMetrics.score liq,
         HealthComponents.volatility = VolatilityMetrics.score vol,
         volume = VolumeMetrics.score volu,
         HealthComponents.spread = calculateSpreadScore (spreadPercent liq) \<rparr>"
  unfolding calculateHealth_def Let_def by simp

lemma risk_score_field:
  "RiskMetrics.score (calculateRisk now liq vol volu) =
     calculateOverallRiskScore
       \<lparr> liquidityRisk = calculateLiquidityRisk liq,
         volatilityRisk = calculateVolatilityRisk vol,
         spreadRisk = calculateSpreadRisk liq,
         volumeRisk = calculateVolumeRisk volu \<rparr>"
  unfolding calculateRisk_def Let_def by simp

text \<open>
  Claim C3. There is a triple of LiquidityMetrics, VolatilityMetrics and VolumeMetrics on
  which the score of \<open>RiskService.calculateRisk\<close> differs from 100 minus the score of
  \<open>HealthService.calculateHealth\<close>: with all three analyzer scores at 100 and a spread of
  0 percent, health is 100 and risk is 2 (the spread risk bucket is 10, weighted 0.2).
\<close>

theorem risk_not_complement_of_health:
  "\<exists>liq vol volu. RiskMetrics.score (calculateRisk now liq vol volu)
      \<noteq> 100 - HealthScore.score (calculateHealth now liq vol volu)"
proof -
  have h: "HealthScore.score (calculateHealth now soundLiquidity calmVolatility busyVolume) = 100"
    by (simp add: health_score_field calculateOverallScore_def calculateSpreadScore_def
        soundLiquidity_def calmVolatility_def busyVolume_def Math_round_def)
  have r: "RiskMetrics.score (calculateRisk now soundLiquidity calmVolatility busyVolume) = 2"
    by (simp add: risk_score_field calculateOverallRiskScore_def calculateSpreadRisk_def
        calculateLiquidityRisk_def calculateVolatilityRisk_def calculateVolumeRisk_def
        soundLiquidity_def calmVolatility_def busyVolume_def Math_round_def)
  have "RiskMetrics.score (calculateRisk now soundLiquidity calmVolatility busyVolume)
      \<noteq> 100 - HealthScore.score (calculateHealth now soundLiquidity calmVolatility busyVolume)"
    by (simp add: h r)
  then show ?thesis by blast
qed

section \<open>The health score is monotone\<close>

lemma overall_mono:
  assumes "liquidity c \<le> liquidity c'"
    and "HealthComponents.volatility c \<le> HealthComponents.volatility c'"
    and "volume c \<le> volume c'"
    and "HealthComponents.spread c \<le> HealthComponents.spread c'"
  shows "calculateOverallScore c \<le> calculateOverallScore c'"
proof -
  have "liquidity c * 0.35 + HealthComponents.volatility c * 0.25 + volume c * 0.25
          + HealthComponents.spread c * 0.15
        \<le> liquidity c' * 0.35 + HealthComponents.volatility c' * 0.25 + volume c' * 0.25
          + HealthComponents.spread c' * 0.15"
    using assms by simp
  then have "max 0 (min 100 (liquidity c * 0.35 + HealthComponents.volatility c * 0.25
          + volume c * 0.25 + HealthComponents.spread c * 0.15))
        \<le> max 0 (min 100 (liquidity c' * 0.35 + HealthComponents.volatility c' * 0.25
          + volume c' * 0.25 + HealthComponents.spread c' * 0.15))"
    by linarith
  then show ?thesis
    unfolding calculateOverallScore_def Let_def by (rule Math_round_mono)
qed

text \<open>
  Claim C4. The overall health score (the weighted sum 35/25/25/15 of the four component
  scores, clamped to [0,100] and rounded) does not decrease when one of the components
  liquidity, volatility, volume, spread increases and the other three stay as they are.
\<close>

theorem health_score_monotone:
  "(x \<le> y \<longrightarrow> calculateOverallScore (c\<lparr>liquidity := x\<rparr>)
                  \<le> calculateOverallScore (c\<lparr>liquidity := y\<rparr>))
   \<and> (x \<le> y \<longrightarrow> calculateOverallScore (c\<lparr>HealthComponents.volatility := x\<rparr>)
                  \<le> calculateOverallScore (c\<lparr>HealthComponents.volatility := y\<rparr>))
   \<and> (x \<le> y \<longrightarrow> calculateOverallScore (c\<lparr>volume := x\<rparr>)
                  \<le> calculateOverallScore (c\<lparr>volume := y\<rparr>))
   \<and> (x \<le> y \<longrightarrow> calculateOverallScore (c\<lparr>HealthComponents.spread := x\<rparr>)
                  \<le> calculateOverallScore (c\<lparr>HealthComponents.spread := y\<rparr>))"
  by (intro conjI impI overall_mono) simp_all

theorem health_score_monotone_witness:
  "(40::real) \<le> 80
   \<and> calculateOverallScore (midComponents\<lparr>liquidity := 40\<rparr>) = 54
   \<and> calculateOverallScore (midComponents\<lparr>liquidity := 80\<rparr>) = 68
   \<and> calculateOverallScore (midComponents\<lparr>liquidity := 40\<rparr>)
       \<le> calculateOverallScore (midComponents\<lparr>liquidity := 80\<rparr>)
   \<and> calculateOverallScore (midComponents\<lparr>HealthComponents.volatility := 40\<rparr>)
       \<le> calculateOverallScore (midComponents\<lparr>HealthComponents.volatility := 80\<rparr>)
   \<and> calculateOverallScore (midComponents\<lparr>volume := 40\<rparr>)
       \<le> calculateOverallScore (midComponents\<lparr>volume := 80\<rparr>)
   \<and> calculateOverallScore (midComponents\<lparr>HealthComponents.spread := 40\<rparr>)
       \<le> calculateOverallScore (midComponents\<lparr>HealthComponents.spread := 80\<rparr>)"
proof -
  have a: "calculateOverallScore (midComponents\<lparr>liquidity := 40\<rparr>) = 54"
    by (simp add: calculateOverallScore_def midComponents_def Math_round_def)
  have b: "calculateOverallScore (midComponents\<lparr>liquidity := 80\<rparr>) = 68"
    by (simp add: calculateOverallScore_def midComponents_def Math_round_def)
  show ?thesis
    using health_score_monotone [of 40 80 midComponents] by (simp add: a b)
qed

section \<open>The stream store keeps the last snapshot pushed\<close>

lemma copy_levels:
  "map (\<lambda>lv. \<lparr> price = price lv, quantity = quantity lv,
                PriceLevel.timestamp = PriceLevel.timestamp lv \<rparr>) lvs = lvs"
  by (induction lvs) simp_all

lemma callback_stores: "orderbookCallback st mId (Some ob) = setOrderbook st mId ob"
  by (cases ob) (simp add: orderbookCallback_def copy_levels)

text \<open>
  Claim C5, as the code has it. The live-data store compares no sequence numbers:
  \<open>setOrderbook\<close>, and the stream callback through it, replace the stored snapshot of the
  market by the incoming one whatever the two sequence numbers are. After the update the
  stored snapshot is the incoming snapshot.
\<close>

theorem snapshot_always_replaced:
  "getOrderbook (setOrderbook st mId ob) mId = Some ob
   \<and> getOrderbook (orderbookCallback st mId (Some ob)) mId = Some ob"
  by (simp add: callback_stores) (simp add: getOrderbook_def setOrderbook_def)

text \<open>
  A stored snapshot of sequence 5 is replaced by an incoming snapshot of sequence 3.
\<close>

theorem stale_snapshot_counterexample:
  "sequence (snapshot 3 ''19.95'') \<le> sequence (snapshot 5 ''20.05'')
   \<and> getOrderbook (setOrderbook emptyStore ''INJ-USDT'' (snapshot 5 ''20.05'')) ''INJ-USDT''
       = Some (snapshot 5 ''20.05'')
   \<and> getOrderbook
         (orderbookCallback (setOrderbook emptyStore ''INJ-USDT'' (snapshot 5 ''20.05''))
            ''INJ-USDT'' (Some (snapshot 3 ''19.95''))) ''INJ-USDT''
       \<noteq> Some (snapshot 5 ''20.05'')"
proof -
  have a: "getOrderbook
         (orderbookCallback (setOrderbook emptyStore ''INJ-USDT'' (snapshot 5 ''20.05''))
            ''INJ-USDT'' (Some (snapshot 3 ''19.95''))) ''INJ-USDT''
       = Some (snapshot 3 ''19.95'')"
    by (simp add: callback_stores) (simp add: getOrderbook_def setOrderbook_def)
  have b: "getOrderbook (setOrderbook emptyStore ''INJ-USDT'' (snapshot 5 ''20.05'')) ''INJ-USDT''
       = Some (snapshot 5 ''20.05'')"
    by (simp add: getOrderbook_def setOrderbook_def)
  have c: "snapshot 3 ''19.95'' \<noteq> snapshot 5 ''20.05''"
    by (simp add: snapshot_def)
  have d: "sequence (snapshot 3 ''19.95'') \<le> sequence (snapshot 5 ''20.05'')"
    by (simp add: snapshot_def)
  show ?thesis
    by (simp only: a b) (simp add: c d)
qed

section \<open>VolatilityService: no recent trade\<close>

text \<open>
  Claim C6. When no trade of the list has its \<open>executedAt\<close> inside the volatility window
  (the empty list is one such list), \<open>calculateVolatility\<close> returns the default metrics:
  score 0, level LOW, standardDeviation 0, meanPrice 0, volatilityPercent 0, no price
  changes. It returns a value on every trade list.
\<close>

theorem no_recent_trades_default:
  assumes "\<forall>t\<in>set ts. \<not> executedAt t \<ge> now - windowMinutes * 60 * 1000"
  shows "calculateVolatility now now2 ts windowMinutes =
           \<lparr> VolatilityMetrics.score = 0, VolatilityMetrics.volatility = 0,
             volatilityPercent = 0, VolatilityMetrics.level = VolatilityLevel.LOW,
             priceChanges = [], standardDeviation = 0, meanPrice = 0,
             VolatilityMetrics.timestamp = now2 \<rparr>"
proof -
  have "filter (\<lambda>trade. executedAt trade \<ge> now - windowMinutes * 60 * 1000) ts = []"
    using assms by (simp add: filter_empty_conv)
  then show ?thesis
    by (simp add: calculateVolatility_def getDefaultMetrics_def)
qed

theorem no_recent_trades_default_witness:
  "\<not> executedAt (tradeAt ''20'' 1000) \<ge> 7200000 - 60 * 60 * 1000
   \<and> calculateVolatility 7200000 7200001 [tradeAt ''20'' 1000] 60 =
           \<lparr> VolatilityMetrics.score = 0, VolatilityMetrics.volatility = 0,
             volatilityPercent = 0, VolatilityMetrics.level = VolatilityLevel.LOW,
             priceChanges = [], standardDeviation = 0, meanPrice = 0,
             VolatilityMetrics.timestamp = 7200001 \<rparr>
   \<and> calculateVolatility 7200000 7200001 [] 60 =
           \<lparr> VolatilityMetrics.score = 0, VolatilityMetrics.volatility = 0,
             volatilityPercent = 0, VolatilityMetrics.level = VolatilityLevel.LOW,
             priceChanges = [], standardDeviation = 0, meanPrice = 0,
             VolatilityMetrics.timestamp = 7200001 \<rparr>"
proof -
  have h: "\<forall>t\<in>set [tradeAt ''20'' 1000]. \<not> executedAt t \<ge> 7200000 - 60 * 60 * 1000"
    by (simp add: tradeAt_sel)
  have e: "\<forall>t\<in>set ([] :: Trade list). \<not> executedAt t \<ge> 7200000 - 60 * 60 * 1000"
    by simp
  show ?thesis
    using h no_recent_trades_default [OF h, of 7200001]
      no_recent_trades_default [OF e, of 7200001]
    by simp
qed

section \<open>VolatilityService under time translation\<close>

lemma volatility_shift:
  assumes "\<forall>t\<in>set ts. (executedAt t + d \<ge> now - windowMinutes * 60 * 1000)
                      = (executedAt t \<ge> now - windowMinutes * 60 * 1000)"
  shows "calculateVolatility now now2 (shiftTrades d ts) windowMinutes
           = calculateVolatility now now2 ts windowMinutes"
proof -
  let ?c = "now - windowMinutes * 60 * 1000"
  let ?f = "\<lambda>t. t\<lparr> executedAt := executedAt t + d \<rparr>"
  have f: "filter (\<lambda>trade. executedAt trade \<ge> ?c) (map ?f ts)
             = map ?f (filter (\<lambda>trade. executedAt trade \<ge> ?c) ts)"
    using assms by (induction ts) auto
  have p: "map (\<lambda>t. parseFloat (executionPrice (positionDelta t))) (map ?f xs)
             = map (\<lambda>t. parseFloat (executionPrice (positionDelta t))) xs"
    for xs :: "Trade list"
    by (simp add: comp_def)
  show ?thesis
    unfolding calculateVolatility_def shiftTrades_def Let_def f p by simp
qed

lemma mean_one: "calculateMean [x] = x"
  by (simp add: calculateMean_def)

lemma mean_two: "calculateMean [x, y] = (x + y) / 2"
  by (simp add: calculateMean_def)

lemma meanPrice_field:
  "filter (\<lambda>trade. executedAt trade \<ge> now - windowMinutes * 60 * 1000) ts = r \<Longrightarrow>
   r \<noteq> [] \<Longrightarrow>
   meanPrice (calculateVolatility now now2 ts windowMinutes)
     = calculateMean (map (\<lambda>t. parseFloat (executionPrice (positionDelta t))) r)"
  unfolding calculateVolatility_def Let_def by simp

text \<open>
  Claim C7, as the code has it. \<open>calculateVolatility\<close> gives the same standardDeviation,
  meanPrice and score for a trade list and for the list with every \<open>executedAt\<close> shifted
  by the same constant, when the shift leaves each trade on its side of the window's
  cutoff: the trades inside the window stay inside it and the trades outside it stay
  outside (as when all trades are inside the window before and after the shift).
\<close>

theorem volatility_shift_invariant:
  assumes "\<forall>t\<in>set ts. (executedAt t + d \<ge> now - windowMinutes * 60 * 1000)
                      = (executedAt t \<ge> now - windowMinutes * 60 * 1000)"
  shows "standardDeviation (calculateVolatility now now2 (shiftTrades d ts) windowMinutes)
           = standardDeviation (calculateVolatility now now2 ts windowMinutes)
       \<and> meanPrice (calculateVolatility now now2 (shiftTrades d ts) windowMinutes)
           = meanPrice (calculateVolatility now now2 ts windowMinutes)
       \<and> VolatilityMetrics.score (calculateVolatility now now2 (shiftTrades d ts) windowMinutes)
           = VolatilityMetrics.score (calculateVolatility now now2 ts windowMinutes)"
  using volatility_shift [OF assms] by simp

theorem volatility_shift_invariant_witness:
  "(executedAt (tradeAt ''10'' 3601000) + 1000 \<ge> 7200000 - 60 * 60 * 1000)
      = (executedAt (tradeAt ''10'' 3601000) \<ge> 7200000 - 60 * 60 * 1000)
   \<and> (executedAt (tradeAt ''20'' 3595000) + 1000 \<ge> 7200000 - 60 * 60 * 1000)
      = (executedAt (tradeAt ''20'' 3595000) \<ge> 7200000 - 60 * 60 * 1000)
   \<and> meanPrice (calculateVolatility 7200000 7200000
         (shiftTrades 1000 [tradeAt ''10'' 3601000, tradeAt ''20'' 3595000]) 60) = 10
   \<and> standardDeviation (calculateVolatility 7200000 7200000
         (shiftTrades 1000 [tradeAt ''10'' 3601000, tradeAt ''20'' 3595000]) 60)
       = standardDeviation (calculateVolatility 7200000 7200000
         [tradeAt ''10'' 3601000, tradeAt ''20'' 3595000] 60)
   \<and> VolatilityMetrics.score (calculateVolatility 7200000 7200000
         (shiftTrades 1000 [tradeAt ''10'' 3601000, tradeAt ''20'' 3595000]) 60)
       = VolatilityMetrics.score (calculateVolatility 7200000 7200000
         [tradeAt ''10'' 3601000, tradeAt ''20'' 3595000] 60)"
proof -
  have h: "\<forall>t\<in>set [tradeAt ''10'' 3601000, tradeAt ''20'' 3595000].
             (executedAt t + 1000 \<ge> 7200000 - 60 * 60 * 1000)
               = (executedAt t \<ge> 7200000 - 60 * 60 * 1000)"
    by (simp add: tradeAt_sel)
  have b: "meanPrice (calculateVolatility 7200000 7200000
             [tradeAt ''10'' 3601000, tradeAt ''20'' 3595000] 60) = 10"
    by (subst meanPrice_field [where r = "[tradeAt ''10'' 3601000]"])
       (simp_all add: tradeAt_sel mean_one parseFloat_10)
  show ?thesis
    using volatility_shift_invariant [OF h, of 7200000] by (simp add: b tradeAt_sel)
qed

text \<open>
  The claim asks only that the trades inside the window stay inside it. A trade that is
  outside the window and that the shift moves into it changes the result: the trade at
  price 10 is inside the window before and after a shift by 1000, the trade at price 20
  enters the window, and the mean price goes from 10 to 15.
\<close>

theorem volatility_shift_counterexample:
  "executedAt (tradeAt ''10'' 3601000) \<ge> 7200000 - 60 * 60 * 1000
   \<and> executedAt (tradeAt ''10'' 3601000) + 1000 \<ge> 7200000 - 60 * 60 * 1000
   \<and> \<not> executedAt (tradeAt ''20'' 3599500) \<ge> 7200000 - 60 * 60 * 1000
   \<and> meanPrice (calculateVolatility 7200000 7200000
         (shiftTrades 1000 [tradeAt ''10'' 3601000, tradeAt ''20'' 3599500]) 60) = 15
   \<and> meanPrice (calculateVolatility 7200000 7200000
         [tradeAt ''10'' 3601000, tradeAt ''20'' 3599500] 60) = 10"
proof -
  have s: "shiftTrades 1000 [tradeAt ''10'' 3601000, tradeAt ''20'' 3599500]
             = [tradeAt ''10'' 3602000, tradeAt ''20'' 3600500]"
    by (simp add: shiftTrades_def shift_tradeAt)
  have a: "meanPrice (calculateVolatility 7200000 7200000
             [tradeAt ''10'' 3602000, tradeAt ''20'' 3600500] 60) = 15"
    by (subst meanPrice_field [where r = "[tradeAt ''10'' 3602000, tradeAt ''20'' 3600500]"])
       (simp_all add: tradeAt_sel mean_two parseFloat_10 parseFloat_20)
  have b: "meanPrice (calculateVolatility 7200000 7200000
             [tradeAt ''10'' 3601000, tradeAt ''20'' 3599500] 60) = 10"
    by (subst meanPrice_field [where r = "[tradeAt ''10'' 3601000]"])
       (simp_all add: tradeAt_sel mean_one parseFloat_10)
  show ?thesis
    by (simp only: s a b) (simp add: tradeAt_sel)
qed

section \<open>Cache: set, get and expiry\<close>

lemma get_hit:
  assumes "store c key = Some e" and "\<not> now - CacheEntry.timestamp e > ttl e"
  shows "Cache_get c key now =
           (Some (data e), c\<lparr> stats := (stats c)\<lparr> hits := hits (stats c) + 1 \<rparr> \<rparr>)"
  using assms by (simp add: Cache_get_def)

lemma get_expired:
  assumes "store c key = Some e" and "now - CacheEntry.timestamp e > ttl e"
  shows "Cache_get c key now =
           (None, c\<lparr> store := (store c)(key := None),
                     stats := (stats c)\<lparr> misses := misses (stats c) + 1 \<rparr> \<rparr>)"
  using assms by (simp add: Cache_get_def)

lemma set_entry:
  "store (Cache_set c key v ttlSeconds now) key
     = Some \<lparr> data = v, CacheEntry.timestamp = now, ttl = ttlSeconds * 1000 \<rparr>"
  by (simp add: Cache_set_def)

lemma get_some:
  assumes "fst (Cache_get c key now) = Some v"
  shows "\<exists>e. store c key = Some e \<and> data e = v \<and> now - CacheEntry.timestamp e \<le> ttl e"
  using assms by (auto simp: Cache_get_def Let_def split: option.splits if_splits)

lemma set_then_get:
  "fst (Cache_get (Cache_set c key v ttlSeconds now1) key now2)
     = (if now2 - now1 > ttlSeconds * 1000 then None else Some v)"
proof (cases "now2 - now1 > ttlSeconds * 1000")
  case True
  then show ?thesis
    by (simp add: get_expired [OF set_entry])
next
  case False
  then show ?thesis
    by (simp add: get_hit [OF set_entry])
qed

text \<open>
  Claim C8. For every key, value and time-to-live: a \<open>Cache.set\<close> at time \<open>now1\<close> followed
  by a \<open>Cache.get\<close> of the same key at a time \<open>now2\<close> at which the time-to-live has not
  elapsed returns the stored value and adds one to the hit counter. A \<open>Cache.get\<close> of an
  entry whose time-to-live has elapsed returns \<open>null\<close>, adds one to the miss counter and
  removes the entry from the store. And whenever a \<open>get\<close> returns a value, it is the value
  of a stored entry whose age is at most its time-to-live.
\<close>

theorem cache_set_get:
  "(now2 - now1 \<le> ttlSeconds * 1000 \<longrightarrow>
      fst (Cache_get (Cache_set c key v ttlSeconds now1) key now2) = Some v
      \<and> hits (stats (snd (Cache_get (Cache_set c key v ttlSeconds now1) key now2)))
          = hits (stats (Cache_set c key v ttlSeconds now1)) + 1
      \<and> misses (stats (snd (Cache_get (Cache_set c key v ttlSeconds now1) key now2)))
          = misses (stats (Cache_set c key v ttlSeconds now1)))
   \<and> (store c' key' = Some e \<and> now - CacheEntry.timestamp e > ttl e \<longrightarrow>
      fst (Cache_get c' key' now) = None
      \<and> misses (stats (snd (Cache_get c' key' now))) = misses (stats c') + 1
      \<and> hits (stats (snd (Cache_get c' key' now))) = hits (stats c')
      \<and> store (snd (Cache_get c' key' now)) key' = None)
   \<and> (fst (Cache_get c3 key3 now3) = Some w \<longrightarrow>
      (\<exists>e'. store c3 key3 = Some e' \<and> data e' = w
            \<and> now3 - CacheEntry.timestamp e' \<le> ttl e'))"
proof (intro conjI impI)
  assume a: "now2 - now1 \<le> ttlSeconds * 1000"
  let ?c1 = "Cache_set c key v ttlSeconds now1"
  let ?e = "\<lparr> data = v, CacheEntry.timestamp = now1, ttl = ttlSeconds * 1000 \<rparr>"
  have s: "store ?c1 key = Some ?e" by (rule set_entry)
  have n: "\<not> now2 - CacheEntry.timestamp ?e > ttl ?e" using a by simp
  note g = get_hit [OF s n]
  show "fst (Cache_get ?c1 key now2) = Some v" by (simp add: g)
  show "hits (stats (snd (Cache_get ?c1 key now2))) = hits (stats ?c1) + 1" by (simp add: g)
  show "misses (stats (snd (Cache_get ?c1 key now2))) = misses (stats ?c1)" by (simp add: g)
next
  assume "store c' key' = Some e \<and> now - CacheEntry.timestamp e > ttl e"
  then have g: "Cache_get c' key' now =
                  (None, c'\<lparr> store := (store c')(key' := None),
                             stats := (stats c')\<lparr> misses := misses (stats c') + 1 \<rparr> \<rparr>)"
    by (simp add: get_expired)
  show "fst (Cache_get c' key' now) = None" by (simp add: g)
  show "misses (stats (snd (Cache_get c' key' now))) = misses (stats c') + 1" by (simp add: g)
  show "hits (stats (snd (Cache_get c' key' now))) = hits (stats c')" by (simp add: g)
  show "store (snd (Cache_get c' key' now)) key' = None" by (simp add: g)
next
  assume "fst (Cache_get c3 key3 now3) = Some w"
  then show "\<exists>e'. store c3 key3 = Some e' \<and> data e' = w
                 \<and> now3 - CacheEntry.timestamp e' \<le> ttl e'"
    by (rule get_some)
qed

theorem cache_set_get_witness:
  "(5000::real) - 0 \<le> 30 * 1000
   \<and> fst (Cache_get cachedOnce ''health:INJ-USDT'' 5000) = Some ''v''
   \<and> hits (stats (snd (Cache_get cachedOnce ''health:INJ-USDT'' 5000))) = 1
   \<and> misses (stats (snd (Cache_get cachedOnce ''health:INJ-USDT'' 5000))) = 0
   \<and> store cachedOnce ''health:INJ-USDT''
       = Some \<lparr> data = ''v'', CacheEntry.timestamp = 0, ttl = 30000 \<rparr>
   \<and> (30001::real) - 0 > 30000
   \<and> fst (Cache_get cachedOnce ''health:INJ-USDT'' 30001) = None
   \<and> misses (stats (snd (Cache_get cachedOnce ''health:INJ-USDT'' 30001))) = 1
   \<and> hits (stats (snd (Cache_get cachedOnce ''health:INJ-USDT'' 30001))) = 0
   \<and> store (snd (Cache_get cachedOnce ''health:INJ-USDT'' 30001)) ''health:INJ-USDT'' = None"
proof -
  have s: "store cachedOnce ''health:INJ-USDT''
             = Some \<lparr> data = ''v'', CacheEntry.timestamp = 0, ttl = 30000 \<rparr>"
    by (simp add: cachedOnce_def set_entry)
  have st: "hits (stats cachedOnce) = 0" "misses (stats cachedOnce) = 0"
    by (simp_all add: cachedOnce_def Cache_set_def emptyCache_def)
  note t = cache_set_get
    [where c = emptyCache and key = "''health:INJ-USDT''" and v = "''v''" and ttlSeconds = 30
       and ?now1.0 = 0 and ?now2.0 = 5000 and c' = cachedOnce and key' = "''health:INJ-USDT''"
       and e = "\<lparr> data = ''v'', CacheEntry.timestamp = 0, ttl = 30000 \<rparr>" and now = 30001
       and ?c3.0 = cachedOnce and ?key3.0 = "''health:INJ-USDT''" and ?now3.0 = 5000
       and w = "''v''", folded cachedOnce_def]
  show ?thesis
    using t s st by simp
qed

section \<open>The comparison cache key under permutation\<close>

lemma sort_perm:
  assumes "mset ids1 = mset ids2"
  shows "sort ids1 = sort ids2"
proof (rule properties_for_sort)
  show "mset (sort ids2) = mset ids1" using assms by simp
  show "sorted (sort ids2)" by simp
qed

lemma compareCacheKey_perm:
  assumes "mset ids1 = mset ids2"
  shows "compareCacheKey ids1 = compareCacheKey ids2"
  unfolding compareCacheKey_def using sort_perm [OF assms] by simp

text \<open>
  The identifiers come from splitting the query parameter at its commas, so none of them
  holds a comma and there is at least one. On such lists \<open>join\<close> loses nothing: the
  joined string determines the list.
\<close>

lemma join_Cons: "join sep (x # xs) = x @ (if xs = [] then [] else sep @ join sep xs)"
  by (cases xs) simp_all

lemma join_head:
  assumes "CHR '','' \<notin> set x"
  shows "takeWhile (\<lambda>c. c \<noteq> CHR '','') (join '','' (x # xs)) = x"
    and "dropWhile (\<lambda>c. c \<noteq> CHR '','') (join '','' (x # xs))
           = (if xs = [] then [] else '','' @ join '','' xs)"
proof -
  have a: "\<forall>c\<in>set x. c \<noteq> CHR '',''"
    using assms by blast
  show "takeWhile (\<lambda>c. c \<noteq> CHR '','') (join '','' (x # xs)) = x"
    unfolding join_Cons using a by simp
  show "dropWhile (\<lambda>c. c \<noteq> CHR '','') (join '','' (x # xs))
           = (if xs = [] then [] else '','' @ join '','' xs)"
    unfolding join_Cons using a by simp
qed

lemma join_inj:
  assumes "\<forall>x\<in>set xs. CHR '','' \<notin> set x" and "\<forall>y\<in>set ys. CHR '','' \<notin> set y"
    and "xs \<noteq> []" and "ys \<noteq> []" and "join '','' xs = join '','' ys"
  shows "xs = ys"
  using assms
proof (induction xs arbitrary: ys)
  case Nil
  then show ?case by simp
next
  case (Cons x xs')
  from Cons.prems(4) obtain y ys' where ys: "ys = y # ys'"
    by (cases ys) simp_all
  have cx: "CHR '','' \<notin> set x" and cy: "CHR '','' \<notin> set y"
    using Cons.prems(1,2) ys by simp_all
  have eq: "join '','' (x # xs') = join '','' (y # ys')"
    using Cons.prems(5) ys by simp
  have "takeWhile (\<lambda>c. c \<noteq> CHR '','') (join '','' (x # xs'))
          = takeWhile (\<lambda>c. c \<noteq> CHR '','') (join '','' (y # ys'))"
    using eq by simp
  then have xy: "x = y"
    by (simp only: join_head(1) [OF cx] join_head(1) [OF cy])
  have "dropWhile (\<lambda>c. c \<noteq> CHR '','') (join '','' (x # xs'))
          = dropWhile (\<lambda>c. c \<noteq> CHR '','') (join '','' (y # ys'))"
    using eq by simp
  then have tl: "(if xs' = [] then [] else '','' @ join '','' xs')
                   = (if ys' = [] then [] else '','' @ join '','' ys')"
    by (simp only: join_head(2) [OF cx] join_head(2) [OF cy])
  have "xs' = ys'"
  proof (cases "xs' = []")
    case True
    then show ?thesis
      using tl by (simp split: if_splits)
  next
    case False
    then have ne: "ys' \<noteq> []"
      using tl by (auto split: if_splits)
    have "join '','' xs' = join '','' ys'"
      using tl False ne by simp
    moreover have "\<forall>x\<in>set xs'. CHR '','' \<notin> set x" "\<forall>y\<in>set ys'. CHR '','' \<notin> set y"
      using Cons.prems(1,2) ys by simp_all
    ultimately show ?thesis
      using False ne by (intro Cons.IH) simp_all
  qed
  then show ?case
    using xy ys by simp
qed

lemma compareCacheKey_inj:
  assumes "\<forall>i\<in>set ids1 \<union> set ids2. CHR '','' \<notin> set i"
    and "ids1 \<noteq> []" and "ids2 \<noteq> []"
    and "compareCacheKey ids1 = compareCacheKey ids2"
  shows "mset ids1 = mset ids2"
proof -
  have "join '','' (sort ids1) = join '','' (sort ids2)"
    using assms(4) by (simp add: compareCacheKey_def)
  moreover have "\<forall>x\<in>set (sort ids1). CHR '','' \<notin> set x"
    "\<forall>y\<in>set (sort ids2). CHR '','' \<notin> set y"
    using assms(1) by simp_all
  moreover have "sort ids1 \<noteq> []" "sort ids2 \<noteq> []"
    using assms(2,3) by (auto dest: arg_cong [where f = mset])
  ultimately have "sort ids1 = sort ids2"
    by (intro join_inj)
  then have "mset (sort ids1) = mset (sort ids2)"
    by simp
  then show ?thesis
    by simp
qed

lemma compareCacheKey_sorted:
  "\<exists>ss. sorted ss \<and> mset ss = mset ids \<and> compareCacheKey ids = ''compare:'' @ join '','' ss"
proof -
  have "sorted (sort ids) \<and> mset (sort ids) = mset ids
          \<and> compareCacheKey ids = ''compare:'' @ join '','' (sort ids)"
    by (simp add: compareCacheKey_def)
  then show ?thesis by blast
qed

text \<open>
  Claim C9. The cache key of the comparison route is built from the sorted identifier
  list: it is the text \<open>compare:\<close> followed by the identifiers in ascending order, joined
  by commas. So two lists that are permutations of each other (of 2 to 5 identifiers, or
  of any other length) give the same key, and they share one cache entry: what is stored
  under the key of one list is what a \<open>get\<close> with the key of the other finds, as long as
  the time-to-live has not elapsed. The key keeps the identifiers apart as well: two lists
  of identifiers (comma-free, as the handler's split at commas makes them, and at least
  one in each list) that give the same key are permutations of each other.
\<close>

theorem compare_key_permutation:
  "(\<exists>ss. sorted ss \<and> mset ss = mset ids1
         \<and> compareCacheKey ids1 = ''compare:'' @ join '','' ss)
   \<and> (mset ids1 = mset ids2 \<longrightarrow>
        compareCacheKey ids1 = compareCacheKey ids2
        \<and> fst (Cache_get (Cache_set c (compareCacheKey ids1) v ttlSeconds now1)
                 (compareCacheKey ids2) now2)
            = (if now2 - now1 > ttlSeconds * 1000 then None else Some v))
   \<and> ((\<forall>i\<in>set ids1 \<union> set ids2. CHR '','' \<notin> set i) \<and> ids1 \<noteq> [] \<and> ids2 \<noteq> []
        \<and> compareCacheKey ids1 = compareCacheKey ids2 \<longrightarrow>
        mset ids1 = mset ids2)"
proof (intro conjI impI)
  show "\<exists>ss. sorted ss \<and> mset ss = mset ids1
          \<and> compareCacheKey ids1 = ''compare:'' @ join '','' ss"
    by (rule compareCacheKey_sorted)
next
  assume m: "mset ids1 = mset ids2"
  show k: "compareCacheKey ids1 = compareCacheKey ids2"
    using m by (rule compareCacheKey_perm)
  show "fst (Cache_get (Cache_set c (compareCacheKey ids1) v ttlSeconds now1)
               (compareCacheKey ids2) now2)
          = (if now2 - now1 > ttlSeconds * 1000 then None else Some v)"
    unfolding k [symmetric] by (simp only: set_then_get)
next
  assume "(\<forall>i\<in>set ids1 \<union> set ids2. CHR '','' \<notin> set i) \<and> ids1 \<noteq> [] \<and> ids2 \<noteq> []
            \<and> compareCacheKey ids1 = compareCacheKey ids2"
  then show "mset ids1 = mset ids2"
    by (intro compareCacheKey_inj) simp_all
qed

theorem compare_key_permutation_witness:
  "mset [''INJ-USDT'', ''ATOM-USDT'', ''BTC-USDT'']
     = mset [''BTC-USDT'', ''INJ-USDT'', ''ATOM-USDT'']
   \<and> compareCacheKey [''INJ-USDT'', ''ATOM-USDT'', ''BTC-USDT'']
       = ''compare:ATOM-USDT,BTC-USDT,INJ-USDT''
   \<and> compareCacheKey [''BTC-USDT'', ''INJ-USDT'', ''ATOM-USDT'']
       = ''compare:ATOM-USDT,BTC-USDT,INJ-USDT''
   \<and> fst (Cache_get
            (Cache_set emptyCache (compareCacheKey [''INJ-USDT'', ''ATOM-USDT'', ''BTC-USDT''])
               ''r'' 30 0)
            (compareCacheKey [''BTC-USDT'', ''INJ-USDT'', ''ATOM-USDT'']) 5000)
       = Some ''r''
   \<and> CHR '','' \<notin> set ''INJ-USDT'' \<and> CHR '','' \<notin> set ''ATOM-USDT''
   \<and> CHR '','' \<notin> set ''BTC-USDT''
   \<and> mset [''INJ-USDT'', ''ATOM-USDT''] \<noteq> mset [''INJ-USDT'', ''BTC-USDT'']
   \<and> compareCacheKey [''INJ-USDT'', ''ATOM-USDT'']
       \<noteq> compareCacheKey [''INJ-USDT'', ''BTC-USDT'']"
proof -
  have h: "mset [''INJ-USDT'', ''ATOM-USDT'', ''BTC-USDT'']
             = mset [''BTC-USDT'', ''INJ-USDT'', ''ATOM-USDT'']"
    by (simp add: add_mset_commute)
  have k: "compareCacheKey [''INJ-USDT'', ''ATOM-USDT'', ''BTC-USDT'']
             = ''compare:ATOM-USDT,BTC-USDT,INJ-USDT''"
    by code_simp
  note t = compare_key_permutation
    [where ?ids1.0 = "[''INJ-USDT'', ''ATOM-USDT'', ''BTC-USDT'']"
       and ?ids2.0 = "[''BTC-USDT'', ''INJ-USDT'', ''ATOM-USDT'']"
       and c = emptyCache and v = "''r''" and ttlSeconds = 30 and ?now1.0 = 0
       and ?now2.0 = 5000]
  note t2 = conjunct1 [OF conjunct2 [OF t], rule_format, OF h]
  have g: "fst (Cache_get
            (Cache_set emptyCache (compareCacheKey [''INJ-USDT'', ''ATOM-USDT'', ''BTC-USDT''])
               ''r'' 30 0)
            (compareCacheKey [''BTC-USDT'', ''INJ-USDT'', ''ATOM-USDT'']) 5000)
       = Some ''r''"
    using conjunct2 [OF t2] by simp
  have k2: "compareCacheKey [''BTC-USDT'', ''INJ-USDT'', ''ATOM-USDT'']
             = ''compare:ATOM-USDT,BTC-USDT,INJ-USDT''"
    using conjunct1 [OF t2] k by simp
  have cf: "CHR '','' \<notin> set ''INJ-USDT''" "CHR '','' \<notin> set ''ATOM-USDT''"
    "CHR '','' \<notin> set ''BTC-USDT''"
    by simp_all
  have ne: "mset [''INJ-USDT'', ''ATOM-USDT''] \<noteq> mset [''INJ-USDT'', ''BTC-USDT'']"
    by simp
  note u = compare_key_permutation
    [where ?ids1.0 = "[''INJ-USDT'', ''ATOM-USDT'']"
       and ?ids2.0 = "[''INJ-USDT'', ''BTC-USDT'']"
       and c = emptyCache and v = "''r''" and ttlSeconds = 30 and ?now1.0 = 0
       and ?now2.0 = 5000]
  have d: "compareCacheKey [''INJ-USDT'', ''ATOM-USDT'']
             \<noteq> compareCacheKey [''INJ-USDT'', ''BTC-USDT'']"
  proof
    assume "compareCacheKey [''INJ-USDT'', ''ATOM-USDT'']
              = compareCacheKey [''INJ-USDT'', ''BTC-USDT'']"
    then have "mset [''INJ-USDT'', ''ATOM-USDT''] = mset [''INJ-USDT'', ''BTC-USDT'']"
      using conjunct2 [OF conjunct2 [OF u]] cf by simp
    then show False using ne by simp
  qed
  show ?thesis
    by (intro conjI h k k2 g cf ne d)
qed

end
